theory Spec2Isabelle
  imports Main
begin

section \<open>Python values used by the booking backend\<close>

text \<open>
  A Python \<open>str\<close> is a sequence of Unicode code points; it is modelled as a list of
  their numbers (integers from 0 to 1114111), so that the non-ASCII characters of the
  messages are single elements as they are in Python. \<open>ascii\<close> turns an ASCII literal
  into such a list.
\<close>

type_synonym str = "int list"

definition ascii :: "string \<Rightarrow> str" where
  "ascii s = map of_char s"

text \<open>
  The exceptions the code can meet, all of them subclasses of \<open>Exception\<close> (which is what
  every \<open>except Exception\<close> of the source catches). The text of an exception is the
  library's; it is read through the \<open>str_e\<close> function of the library record below.
\<close>

datatype exn =
    ValueError str
  | OverflowError
  | AttributeError
  | HttpError str
  | OtherException str

fun is_HttpError :: "exn \<Rightarrow> bool" where
  "is_HttpError (HttpError m) = True"
| "is_HttpError e = False"

subsection \<open>Dates and naive datetimes\<close>

text \<open>
  A \<open>date\<close> is its proleptic Gregorian ordinal (\<open>date.toordinal()\<close>: 0001-01-01 is day 1).
  A naive \<open>datetime\<close> is the number of microseconds since the midnight that starts day 0;
  the order of these numbers is the order Python compares naive datetimes in.
\<close>

type_synonym date = int
type_synonym datetime = int

definition is_leap :: "int \<Rightarrow> bool" where
  "is_leap y = (y mod 4 = 0 \<and> (y mod 100 \<noteq> 0 \<or> y mod 400 = 0))"

definition days_before_year :: "int \<Rightarrow> int" where
  "days_before_year year = (let y = year - 1 in y * 365 + y div 4 - y div 100 + y div 400)"

definition days_in_month :: "int \<Rightarrow> int \<Rightarrow> int" where
  "days_in_month year month =
     (if month = 2 then (if is_leap year then 29 else 28)
      else if month \<in> {4, 6, 9, 11} then 30 else 31)"

definition days_before_month :: "int \<Rightarrow> int \<Rightarrow> int" where
  "days_before_month year month = (\<Sum>m \<leftarrow> [1..month - 1]. days_in_month year m)"

definition ymd2ord :: "int \<Rightarrow> int \<Rightarrow> int \<Rightarrow> date" where
  "ymd2ord year month day = days_before_year year + days_before_month year month + day"

definition MAXORDINAL :: int where
  "MAXORDINAL = 3652059"

definition us_per_day :: int where
  "us_per_day = 86400000000"

definition us_per_hour :: int where
  "us_per_hour = 3600000000"

definition us_per_minute :: int where
  "us_per_minute = 60000000"

text \<open>\<open>date.weekday()\<close>: Monday is 0, Sunday is 6.\<close>

definition weekday :: "date \<Rightarrow> int" where
  "weekday d = (d + 6) mod 7"

text \<open>\<open>datetime.combine(d, datetime.min.time().replace(hour=hour))\<close>.\<close>

definition combine :: "date \<Rightarrow> int \<Rightarrow> datetime" where
  "combine d hour = d * us_per_day + hour * us_per_hour"

text \<open>\<open>dt.date()\<close>.\<close>

definition date_of :: "datetime \<Rightarrow> date" where
  "date_of dt = dt div us_per_day"

text \<open>
  \<open>dt + timedelta(minutes=m)\<close>: Python raises \<open>OverflowError\<close> when the timedelta or the
  sum leaves the years 1 to 9999. For a datetime in that range the sum is in range only
  if the timedelta is, so one test covers both.
\<close>

definition add_minutes :: "datetime \<Rightarrow> int \<Rightarrow> exn + datetime" where
  "add_minutes dt m =
     (let r = dt + m * us_per_minute
      in if us_per_day \<le> r \<and> r < (MAXORDINAL + 1) * us_per_day then Inr r
         else Inl OverflowError)"

text \<open>\<open>d + timedelta(days=1)\<close> on a date.\<close>

definition next_day :: "date \<Rightarrow> exn + date" where
  "next_day d = (if d + 1 \<le> MAXORDINAL then Inr (d + 1) else Inl OverflowError)"

subsection \<open>Strings\<close>

text \<open>\<open>str.isspace\<close> on one code point, the set \<open>str.strip()\<close> removes.\<close>

definition isspace :: "int \<Rightarrow> bool" where
  "isspace c =
     ((9 \<le> c \<and> c \<le> 13) \<or> (28 \<le> c \<and> c \<le> 32) \<or> c = 133 \<or> c = 160 \<or> c = 5760
      \<or> (8192 \<le> c \<and> c \<le> 8202) \<or> c = 8232 \<or> c = 8233 \<or> c = 8239 \<or> c = 8287
      \<or> c = 12288)"

definition strip :: "str \<Rightarrow> str" where
  "strip s = rev (dropWhile isspace (rev (dropWhile isspace s)))"

text \<open>\<open>sub in s\<close>.\<close>

fun contains :: "str \<Rightarrow> str \<Rightarrow> bool" where
  "contains sub [] = (sub = [])"
| "contains sub (c # cs) = (take (length sub) (c # cs) = sub \<or> contains sub cs)"

text \<open>
  \<open>s.split(sep)\<close> for a non-empty separator: the pieces between the occurrences of
  \<open>sep\<close>, found from the left without overlap. \<open>cur\<close> holds the piece being read,
  reversed.
\<close>

function split_from :: "str \<Rightarrow> str \<Rightarrow> str \<Rightarrow> str list" where
  "split_from sep cur [] = [rev cur]"
| "split_from sep cur (c # cs) =
     (if sep \<noteq> [] \<and> take (length sep) (c # cs) = sep
      then rev cur # split_from sep [] (drop (length sep) (c # cs))
      else split_from sep (c # cur) cs)"
  by pat_completeness auto
termination
  by (relation "measure (\<lambda>(sep, cur, s). length s)") auto

definition split :: "str \<Rightarrow> str \<Rightarrow> str list" where
  "split s sep = split_from sep [] s"

text \<open>\<open>s.replace(old, new)\<close> for a one-character \<open>old\<close>.\<close>

definition replace :: "str \<Rightarrow> int \<Rightarrow> str \<Rightarrow> str" where
  "replace s old new = concat (map (\<lambda>c. if c = old then new else [c]) s)"

text \<open>\<open>str(i)\<close> for an integer that is not negative.\<close>

function digits_of :: "int \<Rightarrow> str" where
  "digits_of n = (if n < 10 then [48 + n] else digits_of (n div 10) @ [48 + n mod 10])"
  by pat_completeness auto
termination
  by (relation "measure nat") auto

declare digits_of.simps [simp del]

section \<open>The calendar service\<close>

text \<open>
  The dictionary \<open>get_events\<close> builds for one event. \<open>start_time\<close> and \<open>end_time\<close> are
  the strings of the provider, \<open>None\<close> when the event has neither \<open>dateTime\<close> nor
  \<open>date\<close>.
\<close>

record event =
  ev_id :: str
  ev_title :: str
  ev_start_time :: "str option"
  ev_end_time :: "str option"
  ev_description :: str
  ev_attendees :: "str option list"

text \<open>
  A slot of the availability list. The source stores \<open>slot_start.isoformat()\<close>; the
  model keeps the datetime itself, which that string determines.
\<close>

record slot =
  slot_start_time :: datetime
  slot_end_time :: datetime
  slot_available :: bool

text \<open>The body \<open>create_event\<close> sends to the provider.\<close>

record event_body =
  body_summary :: str
  body_description :: str
  body_start :: str
  body_end :: str
  body_attendees :: "str list"

text \<open>
  The dictionary \<open>create_event\<close> returns: the provider's answer, or the mock one. Only
  its \<open>id\<close> is read by the callers (\<open>event.get('id')\<close>, \<open>None\<close> when absent).
\<close>

record created_event =
  created_id :: "str option"
  created_summary :: str
  created_description :: str
  created_start :: str
  created_end :: str
  created_status :: "str option"

text \<open>
  \<open>CalendarService\<close>: the flag set by the constructor and the three calls made on
  \<open>self.service\<close>, each with the exception it may raise. \<open>events_list\<close> stands for
  \<open>events().list(...).execute()\<close> together with the loop of \<open>get_events\<close> that copies the
  fields of every item; it receives the parsed bounds of the query.
\<close>

record calendar_service =
  is_available :: bool
  events_list :: "datetime \<Rightarrow> datetime \<Rightarrow> exn + event list"
  events_insert :: "event_body \<Rightarrow> exn + created_event"
  events_delete :: "str \<Rightarrow> exn + unit"

text \<open>
  What the code takes from the Python library and the clock:
  \<open>fromisoformat\<close> is \<open>datetime.fromisoformat\<close>, giving the wall-clock fields of the
  parsed value (the code drops \<open>tzinfo\<close> wherever it compares) or the exception;
  \<open>str_e\<close> is \<open>str(e)\<close>; \<open>lower\<close> is \<open>str.lower\<close>;
  \<open>strftime\<close> is \<open>dt.strftime('%A, %B %d at %I:%M %p')\<close>;
  \<open>today\<close> and \<open>future\<close> are \<open>datetime.now().strftime('%Y-%m-%d')\<close> and the same a week
  later; \<open>timestamp\<close> is \<open>str(datetime.now().timestamp())\<close>.
\<close>

record pylib =
  fromisoformat :: "str \<Rightarrow> exn + datetime"
  str_e :: "exn \<Rightarrow> str"
  lower :: "str \<Rightarrow> str"
  strftime :: "datetime \<Rightarrow> exn + str"
  today :: str
  future :: "exn + str"
  timestamp :: str

definition check_availability :: "calendar_service \<Rightarrow> bool \<times> str option" where
  "check_availability self =
     (if \<not> is_available self
      then (False, Some (ascii ''Google Calendar service is not available. Please check your credentials.''))
      else (True, None))"

definition get_events :: "pylib \<Rightarrow> calendar_service \<Rightarrow> str \<Rightarrow> str \<Rightarrow> exn + event list" where
  "get_events lib self start_date end_date =
     (if \<not> fst (check_availability self) then Inr []
      else case fromisoformat lib start_date of
        Inl e \<Rightarrow> Inl e
      | Inr start_time \<Rightarrow>
         (case fromisoformat lib end_date of
            Inl e \<Rightarrow> Inl e
          | Inr end_time \<Rightarrow>
             (case events_list self start_time end_time of
                Inl e \<Rightarrow> (if is_HttpError e then Inr [] else Inl e)
              | Inr formatted_events \<Rightarrow> Inr formatted_events)))"

text \<open>
  \<open>datetime.fromisoformat(event['start_time'].replace('Z', '+00:00'))\<close> followed by the
  removal of \<open>tzinfo\<close>.
\<close>

definition event_time :: "pylib \<Rightarrow> str option \<Rightarrow> exn + datetime" where
  "event_time lib t =
     (case t of
        None \<Rightarrow> Inl AttributeError
      | Some s \<Rightarrow> fromisoformat lib (replace s 90 (ascii ''+00:00'')))"

text \<open>The overlap test of the source: \<open>slot_start < event_end and slot_end > event_start\<close>.\<close>

definition overlaps :: "datetime \<Rightarrow> datetime \<Rightarrow> datetime \<Rightarrow> datetime \<Rightarrow> bool" where
  "overlaps slot_start slot_end event_start event_end =
     (slot_start < event_end \<and> slot_end > event_start)"

text \<open>
  The loop over \<open>existing_events\<close> for one slot: the value of \<open>is_available\<close> when it
  ends, or the exception of the first time that does not parse before a conflict is
  found (the loop stops at the first conflict).
\<close>

fun slot_is_available :: "pylib \<Rightarrow> datetime \<Rightarrow> datetime \<Rightarrow> event list \<Rightarrow> exn + bool" where
  "slot_is_available lib slot_start slot_end [] = Inr True"
| "slot_is_available lib slot_start slot_end (ev # existing_events) =
     (case event_time lib (ev_start_time ev) of
        Inl e \<Rightarrow> Inl e
      | Inr event_start \<Rightarrow>
         (case event_time lib (ev_end_time ev) of
            Inl e \<Rightarrow> Inl e
          | Inr event_end \<Rightarrow>
             (if overlaps slot_start slot_end event_start event_end then Inr False
              else slot_is_available lib slot_start slot_end existing_events)))"

text \<open>The loop \<open>for hour in range(9, 17)\<close> of one day, appending to \<open>available_slots\<close>.\<close>

fun hour_loop ::
  "pylib \<Rightarrow> date \<Rightarrow> int \<Rightarrow> event list \<Rightarrow> int list \<Rightarrow> slot list \<Rightarrow> exn + slot list" where
  "hour_loop lib current_date duration_minutes existing_events [] available_slots =
     Inr available_slots"
| "hour_loop lib current_date duration_minutes existing_events (hour # hours) available_slots =
     (let slot_start = combine current_date hour
      in case add_minutes slot_start duration_minutes of
           Inl e \<Rightarrow> Inl e
         | Inr slot_end \<Rightarrow>
            (case slot_is_available lib slot_start slot_end existing_events of
               Inl e \<Rightarrow> Inl e
             | Inr free \<Rightarrow>
                hour_loop lib current_date duration_minutes existing_events hours
                  (if free
                   then available_slots @
                        [\<lparr>slot_start_time = slot_start, slot_end_time = slot_end, slot_available = True\<rparr>]
                   else available_slots)))"

text \<open>The loop \<open>while current_date <= end_dt.date()\<close> of \<open>get_availability\<close>.\<close>

function availability_loop ::
  "pylib \<Rightarrow> date \<Rightarrow> date \<Rightarrow> int \<Rightarrow> event list \<Rightarrow> slot list \<Rightarrow> exn + slot list" where
  "availability_loop lib current_date end_date duration_minutes existing_events available_slots =
     (if current_date \<le> end_date then
        (case (if weekday current_date < 5
               then hour_loop lib current_date duration_minutes existing_events [9..16]
                      available_slots
               else Inr available_slots) of
           Inl e \<Rightarrow> Inl e
         | Inr slots \<Rightarrow>
            (case next_day current_date of
               Inl e \<Rightarrow> Inl e
             | Inr d \<Rightarrow>
                availability_loop lib d end_date duration_minutes existing_events slots))
      else Inr available_slots)"
  by pat_completeness auto
termination
  by (relation "measure (\<lambda>(lib, current_date, end_date, rest). nat (end_date + 1 - current_date))")
     (auto simp: next_day_def split: if_splits)

declare availability_loop.simps [simp del]

text \<open>The loop \<open>for hour in [9, 11, 14, 16]\<close> of the mock availability.\<close>

fun mock_hour_loop :: "date \<Rightarrow> int \<Rightarrow> int list \<Rightarrow> slot list \<Rightarrow> exn + slot list" where
  "mock_hour_loop current_date duration_minutes [] available_slots = Inr available_slots"
| "mock_hour_loop current_date duration_minutes (hour # hours) available_slots =
     (let slot_start = combine current_date hour
      in case add_minutes slot_start duration_minutes of
           Inl e \<Rightarrow> Inl e
         | Inr slot_end \<Rightarrow>
            mock_hour_loop current_date duration_minutes hours
              (available_slots @
               [\<lparr>slot_start_time = slot_start, slot_end_time = slot_end, slot_available = True\<rparr>]))"

text \<open>
  The loop \<open>while current_date <= end_dt.date() and len(available_slots) < 10\<close> of
  \<open>_get_mock_availability\<close>.
\<close>

function mock_loop :: "date \<Rightarrow> date \<Rightarrow> int \<Rightarrow> slot list \<Rightarrow> exn + slot list" where
  "mock_loop current_date end_date duration_minutes available_slots =
     (if current_date \<le> end_date \<and> length available_slots < 10 then
        (case (if weekday current_date < 5
               then mock_hour_loop current_date duration_minutes [9, 11, 14, 16] available_slots
               else Inr available_slots) of
           Inl e \<Rightarrow> Inl e
         | Inr slots \<Rightarrow>
            (case next_day current_date of
               Inl e \<Rightarrow> Inl e
             | Inr d \<Rightarrow> mock_loop d end_date duration_minutes slots))
      else Inr available_slots)"
  by pat_completeness auto
termination
  by (relation "measure (\<lambda>(current_date, end_date, rest). nat (end_date + 1 - current_date))")
     (auto simp: next_day_def split: if_splits)

declare mock_loop.simps [simp del]

text \<open>\<open>_get_mock_availability\<close>: no \<open>try\<close>, so its exceptions reach the caller.\<close>

definition get_mock_availability :: "pylib \<Rightarrow> str \<Rightarrow> str \<Rightarrow> int \<Rightarrow> exn + slot list" where
  "get_mock_availability lib start_date end_date duration_minutes =
     (case fromisoformat lib start_date of
        Inl e \<Rightarrow> Inl e
      | Inr start_dt \<Rightarrow>
         (case fromisoformat lib end_date of
            Inl e \<Rightarrow> Inl e
          | Inr end_dt \<Rightarrow>
             (case mock_loop (date_of start_dt) (date_of end_dt) duration_minutes [] of
                Inl e \<Rightarrow> Inl e
              | Inr available_slots \<Rightarrow> Inr (take 10 available_slots))))"

text \<open>The \<open>try\<close> block of \<open>get_availability\<close>.\<close>

definition real_availability ::
  "pylib \<Rightarrow> calendar_service \<Rightarrow> str \<Rightarrow> str \<Rightarrow> int \<Rightarrow> exn + slot list" where
  "real_availability lib self start_date end_date duration_minutes =
     (case get_events lib self start_date end_date of
        Inl e \<Rightarrow> Inl e
      | Inr existing_events \<Rightarrow>
         (case fromisoformat lib start_date of
            Inl e \<Rightarrow> Inl e
          | Inr start_dt \<Rightarrow>
             (case fromisoformat lib end_date of
                Inl e \<Rightarrow> Inl e
              | Inr end_dt \<Rightarrow>
                 (case availability_loop lib (date_of start_dt) (date_of end_dt)
                         duration_minutes existing_events [] of
                    Inl e \<Rightarrow> Inl e
                  | Inr available_slots \<Rightarrow> Inr (take 20 available_slots)))))"

definition get_availability ::
  "pylib \<Rightarrow> calendar_service \<Rightarrow> str \<Rightarrow> str \<Rightarrow> int \<Rightarrow> exn + slot list" where
  "get_availability lib self start_date end_date duration_minutes =
     (if \<not> fst (check_availability self)
      then get_mock_availability lib start_date end_date duration_minutes
      else case real_availability lib self start_date end_date duration_minutes of
             Inl e \<Rightarrow> get_mock_availability lib start_date end_date duration_minutes
           | Inr available_slots \<Rightarrow> Inr available_slots)"

text \<open>The \<open>event\<close> dictionary \<open>create_event\<close> builds inside its \<open>try\<close>.\<close>

definition insert_body ::
  "calendar_service \<Rightarrow> str \<Rightarrow> str \<Rightarrow> str \<Rightarrow> str \<Rightarrow> str option \<Rightarrow> event_body" where
  "insert_body self title description start end attendee_email =
     \<lparr>body_summary = title, body_description = description,
      body_start = start, body_end = end,
      body_attendees =
        (case attendee_email of
           None \<Rightarrow> []
         | Some email \<Rightarrow> if email \<noteq> [] \<and> is_available self then [email] else [])\<rparr>"

text \<open>
  \<open>create_event\<close>: the mock dictionary when the provider is unavailable; otherwise the
  provider's answer, and \<open>except HttpError\<close> raises the error again.
\<close>

definition create_event ::
  "pylib \<Rightarrow> calendar_service \<Rightarrow> str \<Rightarrow> str \<Rightarrow> str \<Rightarrow> str \<Rightarrow> str option \<Rightarrow> exn + created_event" where
  "create_event lib self title description start end attendee_email =
     (if \<not> fst (check_availability self) then
        Inr \<lparr>created_id = Some (ascii ''mock_event_'' @ timestamp lib),
             created_summary = title,
             created_description = description,
             created_start = start,
             created_end = end,
             created_status = Some (ascii ''mock_created'')\<rparr>
      else
        (case events_insert self (insert_body self title description start end attendee_email) of
           Inl error \<Rightarrow> (if is_HttpError error then Inl error else Inl error)
         | Inr created \<Rightarrow> Inr created))"

text \<open>
  \<open>delete_event\<close>: \<open>except HttpError\<close> returns \<open>False\<close>; any other exception is not
  caught.
\<close>

definition delete_event :: "calendar_service \<Rightarrow> str \<Rightarrow> exn + bool" where
  "delete_event self event_id =
     (if \<not> fst (check_availability self) then Inr True
      else case events_delete self event_id of
             Inl error \<Rightarrow> (if is_HttpError error then Inr False else Inl error)
           | Inr u \<Rightarrow> Inr True)"

section \<open>The tools of the agent\<close>

text \<open>
  \<open>parse_date_range\<close>: an empty input raises inside the \<open>try\<close>, and so does unpacking a
  split that has not exactly two pieces; the bare \<open>except\<close> passes and the defaults are
  returned. The defaults are computed outside the \<open>try\<close>.
\<close>

definition parse_date_range :: "pylib \<Rightarrow> str \<Rightarrow> exn + (str \<times> str)" where
  "parse_date_range lib input_str =
     (let defaults = (case future lib of Inl e \<Rightarrow> Inl e | Inr f \<Rightarrow> Inr (today lib, f))
      in if input_str = [] then defaults
         else (let s = replace (replace (strip input_str) 34 []) 39 []
               in if contains (ascii ''to'') s
                  then (case split s (ascii ''to'') of
                          [start, end] \<Rightarrow> Inr (strip start, strip end)
                        | _ \<Rightarrow> defaults)
                  else defaults))"

text \<open>The loop \<open>for i, slot in enumerate(availability[:10], 1)\<close>.\<close>

fun format_slots :: "pylib \<Rightarrow> int \<Rightarrow> slot list \<Rightarrow> str \<Rightarrow> exn + str" where
  "format_slots lib i [] slots_text = Inr slots_text"
| "format_slots lib i (slot # rest) slots_text =
     (case strftime lib (slot_start_time slot) of
        Inl e \<Rightarrow> Inl e
      | Inr t \<Rightarrow>
         format_slots lib (i + 1) rest (slots_text @ digits_of i @ ascii ''. '' @ t @ [10]))"

text \<open>The \<open>try\<close> block of \<open>check_availability_tool\<close>.\<close>

definition check_availability_body :: "pylib \<Rightarrow> calendar_service \<Rightarrow> str \<Rightarrow> exn + str" where
  "check_availability_body lib self date_range =
     (case parse_date_range lib date_range of
        Inl e \<Rightarrow> Inl e
      | Inr (start_date, end_date) \<Rightarrow>
         (case get_availability lib self start_date end_date 60 of
            Inl e \<Rightarrow> Inl e
          | Inr availability \<Rightarrow>
             if availability = []
             then Inr (ascii ''No available slots found for the specified date range.'')
             else (let calendar_note =
                         (if \<not> is_available self
                          then [10, 10, 128221] @
                               ascii '' Note: Showing demo availability (Google Calendar not connected)''
                          else [])
                   in case format_slots lib 1 (take 10 availability)
                             (ascii ''Available time slots:'' @ [10]) of
                        Inl e \<Rightarrow> Inl e
                      | Inr slots_text \<Rightarrow> Inr (slots_text @ calendar_note))))"

definition check_availability_tool :: "pylib \<Rightarrow> calendar_service \<Rightarrow> str \<Rightarrow> exn + str" where
  "check_availability_tool lib self date_range =
     (case check_availability_body lib self date_range of
        Inl e \<Rightarrow> Inr (ascii ''Error checking availability: '' @ str_e lib e)
      | Inr text \<Rightarrow> Inr text)"

text \<open>The \<open>try\<close> block of \<open>book_appointment_tool\<close>.\<close>

definition book_appointment_body :: "pylib \<Rightarrow> calendar_service \<Rightarrow> str \<Rightarrow> exn + str" where
  "book_appointment_body lib self booking_details =
     (let parts = split booking_details [124]
      in if length parts < 4
         then Inr (ascii ''Invalid booking format. Please provide: title|description|start_time|end_time|email'')
         else (let title = strip (parts ! 0);
                   description = strip (parts ! 1);
                   start0 = strip (parts ! 2);
                   end0 = strip (parts ! 3);
                   email = (if length parts > 4 then Some (strip (parts ! 4)) else None);
                   start = (if \<not> contains [84] start0 then start0 @ ascii ''T00:00:00'' else start0);
                   end = (if \<not> contains [84] end0 then end0 @ ascii ''T00:00:00'' else end0)
               in case fromisoformat lib start of
                    Inl e \<Rightarrow> Inl e
                  | Inr parsed_start \<Rightarrow>
                     (case fromisoformat lib end of
                        Inl e \<Rightarrow> Inl e
                      | Inr parsed_end \<Rightarrow>
                         (case create_event lib self title description start end email of
                            Inl e \<Rightarrow> Inl e
                          | Inr event \<Rightarrow>
                             (let calendar_note =
                                    (if \<not> is_available self
                                     then [10, 10, 128221] @
                                          ascii '' Note: This is a demo booking (Google Calendar not connected)''
                                     else [])
                              in Inr ([9989] @ ascii '' Appointment booked successfully! Event ID: ''
                                      @ (case created_id event of
                                           None \<Rightarrow> ascii ''None''
                                         | Some i \<Rightarrow> i)
                                      @ calendar_note))))))"

definition book_appointment_tool :: "pylib \<Rightarrow> calendar_service \<Rightarrow> str \<Rightarrow> exn + str" where
  "book_appointment_tool lib self booking_details =
     (case book_appointment_body lib self booking_details of
        Inl e \<Rightarrow> Inr (ascii ''Error booking appointment: '' @ str_e lib e)
      | Inr text \<Rightarrow> Inr text)"

text \<open>The loop \<open>for event in events\<close> of \<open>get_existing_events_tool\<close>.\<close>

fun format_events :: "pylib \<Rightarrow> event list \<Rightarrow> str \<Rightarrow> exn + str" where
  "format_events lib [] events_text = Inr events_text"
| "format_events lib (ev # rest) events_text =
     (case ev_start_time ev of
        None \<Rightarrow> Inl AttributeError
      | Some s \<Rightarrow>
         (case fromisoformat lib (replace s 90 []) of
            Inl e \<Rightarrow> Inl e
          | Inr start \<Rightarrow>
             (case strftime lib start of
                Inl e \<Rightarrow> Inl e
              | Inr t \<Rightarrow>
                 format_events lib rest
                   (events_text @ [8226, 32] @ ev_title ev @ ascii '' - '' @ t @ [10]))))"

text \<open>The \<open>try\<close> block of \<open>get_existing_events_tool\<close>.\<close>

definition get_existing_events_body :: "pylib \<Rightarrow> calendar_service \<Rightarrow> str \<Rightarrow> exn + str" where
  "get_existing_events_body lib self date_range =
     (case parse_date_range lib date_range of
        Inl e \<Rightarrow> Inl e
      | Inr (start_date, end_date) \<Rightarrow>
         (case get_events lib self start_date end_date of
            Inl e \<Rightarrow> Inl e
          | Inr events \<Rightarrow>
             if events = []
             then (let calendar_note =
                         (if \<not> is_available self
                          then [10, 10, 128221] @
                               ascii '' Note: No events shown (Google Calendar not connected)''
                          else [])
                   in Inr (ascii ''No existing events found for the specified date range.''
                           @ calendar_note))
             else format_events lib events (ascii ''Existing events:'' @ [10])))"

definition get_existing_events_tool :: "pylib \<Rightarrow> calendar_service \<Rightarrow> str \<Rightarrow> exn + str" where
  "get_existing_events_tool lib self date_range =
     (case get_existing_events_body lib self date_range of
        Inl e \<Rightarrow> Inr (ascii ''Error getting events: '' @ str_e lib e)
      | Inr text \<Rightarrow> Inr text)"

section \<open>The agent and the chat endpoint\<close>

text \<open>A message of a \<open>ChatMessageHistory\<close>, with its content.\<close>

datatype chat_turn = HumanMessage str | AIMessage str

type_synonym sessions = "str \<rightharpoonup> chat_turn list"

text \<open>
  The dictionary passed to \<open>self.agent.ainvoke\<close>, and the executor itself: what it answers
  (a dictionary from keys to strings) or the exception it raises. The executor is
  LangChain's \<open>AgentExecutor\<close>; the source only configures it.
\<close>

record agent_input =
  agent_in :: str
  agent_chat_history :: str
  agent_current_date :: str

type_synonym agent = "agent_input \<Rightarrow> exn + (str \<rightharpoonup> str)"

text \<open>The loop over \<open>chat_history.messages[-6:]\<close>.\<close>

fun history_lines :: "chat_turn list \<Rightarrow> str" where
  "history_lines [] = []"
| "history_lines (HumanMessage content # rest) =
     ascii ''Human: '' @ content @ [10] @ history_lines rest"
| "history_lines (AIMessage content # rest) =
     ascii ''Assistant: '' @ content @ [10] @ history_lines rest"

definition last_six :: "'a list \<Rightarrow> 'a list" where
  "last_six xs = drop (length xs - 6) xs"

text \<open>The message built by the \<open>except\<close> branch of \<open>process_message\<close>.\<close>

definition api_key_message :: str where
  "api_key_message =
     [128273] @ ascii '' API Key Error!'' @ [10, 10]
     @ ascii ''It looks like there'' @ [39] @ ascii ''s an issue with your API key. Please check your .env file:''
     @ [10, 10]
     @ ascii ''- GROQ_API_KEY (Free): https://console.groq.com/'' @ [10]
     @ ascii ''- GOOGLE_API_KEY (Free Tier): https://makersuite.google.com/app/apikey'' @ [10]
     @ ascii ''- OPENAI_API_KEY (Paid): https://platform.openai.com/api-keys'' @ [10, 10]
     @ ascii ''Then restart the backend:'' @ [10]
     @ ascii ''```bash'' @ [10]
     @ ascii ''python run_backend.py'' @ [10]
     @ ascii ''```''"

definition error_message :: "pylib \<Rightarrow> exn \<Rightarrow> str" where
  "error_message lib e =
     (let text = str_e lib e;
          low = lower lib text;
          error_msg = ascii ''I apologize, but I encountered an error: '' @ text
      in if contains (ascii ''API key'') low \<or> contains (ascii ''invalid_api_key'') low
         then api_key_message
         else if contains (ascii ''quota'') low
         then error_msg @ [10, 10, 128176]
              @ ascii '' This looks like a quota/billing issue. Consider switching to Groq or Google Gemini.''
         else if contains (ascii ''rate limit'') low
         then error_msg @ [10, 10, 9201, 65039]
              @ ascii '' Rate limit exceeded. Please wait a moment and try again.''
         else error_msg)"

text \<open>
  The session identifier \<open>process_message\<close> works on: the given one, or
  \<open>f"session_{datetime.now().timestamp()}"\<close> when it is \<open>None\<close> or empty.
\<close>

definition effective_session_id :: "pylib \<Rightarrow> str option \<Rightarrow> str" where
  "effective_session_id lib session_id =
     (case session_id of
        None \<Rightarrow> ascii ''session_'' @ timestamp lib
      | Some s \<Rightarrow> if s = [] then ascii ''session_'' @ timestamp lib else s)"

text \<open>The transcript of a session, empty when the session does not exist.\<close>

definition transcript :: "sessions \<Rightarrow> str \<Rightarrow> chat_turn list" where
  "transcript sessions sid = (case sessions sid of None \<Rightarrow> [] | Some turns \<Rightarrow> turns)"

text \<open>The dictionary \<open>process_message\<close> passes to the executor.\<close>

definition agent_request :: "pylib \<Rightarrow> sessions \<Rightarrow> str \<Rightarrow> str option \<Rightarrow> agent_input" where
  "agent_request lib sessions message session_id =
     \<lparr>agent_in = message,
      agent_chat_history =
        history_lines (last_six (transcript sessions (effective_session_id lib session_id))),
      agent_current_date = today lib\<rparr>"

text \<open>
  \<open>process_message\<close>: the returned text and the session store after the call. The
  \<open>try\<close> covers the whole body and the \<open>except\<close> branch only builds a string, so no
  exception leaves the function.
\<close>

definition process_message ::
  "pylib \<Rightarrow> agent \<Rightarrow> sessions \<Rightarrow> str \<Rightarrow> str option \<Rightarrow> str \<times> sessions" where
  "process_message lib agent sessions message session_id =
     (let sid = effective_session_id lib session_id;
          sessions1 = (if sid \<notin> dom sessions then sessions(sid \<mapsto> []) else sessions);
          chat_history = transcript sessions1 sid
      in case agent (agent_request lib sessions1 message session_id) of
           Inl e \<Rightarrow> (error_message lib e, sessions1)
         | Inr response \<Rightarrow>
            (let sessions2 = sessions1(sid \<mapsto> chat_history @ [HumanMessage message])
             in case response (ascii ''output'') of
                  Some output \<Rightarrow>
                    (output,
                     sessions2(sid \<mapsto> chat_history @ [HumanMessage message] @ [AIMessage output]))
                | None \<Rightarrow>
                    ([9888, 65039] @ ascii '' Unexpected response format from LLM agent.'',
                     sessions2)))"

text \<open>The request body of \<open>POST /chat\<close> and the dictionary the endpoint returns.\<close>

record ChatMessage =
  cm_message :: str
  cm_session_id :: "str option"
  cm_context :: "(str \<rightharpoonup> str) option"

record chat_reply =
  reply_response :: str
  reply_session_id :: "str option"

text \<open>
  \<open>chat_endpoint\<close>: the \<open>session_id\<close> of the answer is the one of the request
  (\<open>message.session_id\<close>), \<open>None\<close> being JSON \<open>null\<close>. \<open>process_message\<close> raises
  nothing, so the \<open>except\<close> branch that answers with status 500 is never taken.
\<close>

definition chat_endpoint ::
  "pylib \<Rightarrow> agent \<Rightarrow> sessions \<Rightarrow> ChatMessage \<Rightarrow> chat_reply \<times> sessions" where
  "chat_endpoint lib agent sessions message =
     (let (response, sessions') =
            process_message lib agent sessions (cm_message message) (cm_session_id message)
      in (\<lparr>reply_response = response, reply_session_id = cm_session_id message\<rparr>, sessions'))"

section \<open>Reference definitions for the availability results\<close>

text \<open>
  The parsed times of a list of events, in the order \<open>get_availability\<close> reads them.
\<close>

definition event_times :: "pylib \<Rightarrow> event list \<Rightarrow> ((exn + datetime) \<times> (exn + datetime)) list" where
  "event_times lib evs =
     map (\<lambda>ev. (event_time lib (ev_start_time ev), event_time lib (ev_end_time ev))) evs"

definition parsed_intervals :: "(datetime \<times> datetime) list \<Rightarrow> ((exn + datetime) \<times> (exn + datetime)) list" where
  "parsed_intervals busy = map (\<lambda>(b0, b1). (Inr b0, Inr b1)) busy"

text \<open>The slot of \<open>duration_minutes\<close> minutes that starts at \<open>s\<close>.\<close>

definition spec_slot :: "int \<Rightarrow> datetime \<Rightarrow> slot" where
  "spec_slot duration_minutes s =
     \<lparr>slot_start_time = s, slot_end_time = s + duration_minutes * us_per_minute,
      slot_available = True\<rparr>"

text \<open>A slot is free when it overlaps no busy interval.\<close>

definition spec_free :: "(datetime \<times> datetime) list \<Rightarrow> int \<Rightarrow> datetime \<Rightarrow> bool" where
  "spec_free busy duration_minutes s =
     (\<forall>(b0, b1) \<in> set busy. \<not> overlaps s (s + duration_minutes * us_per_minute) b0 b1)"

text \<open>
  The candidate slot starts of a date range in chronological order: every weekday of
  the range, at each of the given hours.
\<close>

definition spec_candidates :: "int list \<Rightarrow> date \<Rightarrow> date \<Rightarrow> datetime list" where
  "spec_candidates hours d0 d1 =
     concat (map (\<lambda>d. if weekday d < 5 then map (combine d) hours else []) [d0..d1])"

text \<open>The first 20 free slots of the business hours 9 to 16 of a range.\<close>

definition spec_first_20_available ::
  "(datetime \<times> datetime) list \<Rightarrow> int \<Rightarrow> date \<Rightarrow> date \<Rightarrow> slot list" where
  "spec_first_20_available busy duration_minutes d0 d1 =
     take 20 (map (spec_slot duration_minutes)
                (filter (spec_free busy duration_minutes) (spec_candidates [9..16] d0 d1)))"

text \<open>The first 10 mock slots of a range.\<close>

definition spec_mock_slots :: "int \<Rightarrow> date \<Rightarrow> date \<Rightarrow> slot list" where
  "spec_mock_slots duration_minutes d0 d1 =
     take 10 (map (spec_slot duration_minutes) (spec_candidates [9, 11, 14, 16] d0 d1))"

section \<open>Example environments\<close>

text \<open>
  \<open>iso_parse\<close> is \<open>datetime.fromisoformat\<close> on the forms \<open>YYYY-MM-DD\<close>,
  \<open>YYYY-MM-DDTHH:MM:SS\<close> and the latter followed by an offset \<open>+HH:MM\<close> or \<open>-HH:MM\<close>
  (the offset is dropped, as the code does). It is used for the concrete examples only;
  the library accepts further forms (a time without seconds, fractions of a second, a
  space as separator), which \<open>iso_parse\<close> refuses, and the library words some refusals
  differently (a day out of range for its month).
\<close>

definition is_digit :: "int \<Rightarrow> bool" where
  "is_digit c = (48 \<le> c \<and> c \<le> 57)"

definition int_of_digits :: "str \<Rightarrow> int" where
  "int_of_digits ds = foldl (\<lambda>a c. 10 * a + (c - 48)) 0 ds"

definition parse_ymd :: "str \<Rightarrow> date option" where
  "parse_ymd s =
     (if length s = 10 \<and> s ! 4 = 45 \<and> s ! 7 = 45
         \<and> list_all is_digit (take 4 s @ take 2 (drop 5 s) @ drop 8 s)
      then (let y = int_of_digits (take 4 s);
                m = int_of_digits (take 2 (drop 5 s));
                d = int_of_digits (drop 8 s)
            in if 1 \<le> y \<and> 1 \<le> m \<and> m \<le> 12 \<and> 1 \<le> d \<and> d \<le> days_in_month y m
               then Some (ymd2ord y m d) else None)
      else None)"

definition parse_hms :: "str \<Rightarrow> int option" where
  "parse_hms s =
     (if length s = 8 \<and> s ! 2 = 58 \<and> s ! 5 = 58
         \<and> list_all is_digit (take 2 s @ take 2 (drop 3 s) @ drop 6 s)
      then (let h = int_of_digits (take 2 s);
                m = int_of_digits (take 2 (drop 3 s));
                sec = int_of_digits (drop 6 s)
            in if h < 24 \<and> m < 60 \<and> sec < 60
               then Some (h * us_per_hour + m * us_per_minute + sec * 1000000) else None)
      else None)"

definition valid_offset :: "str \<Rightarrow> bool" where
  "valid_offset s =
     (length s = 6 \<and> (s ! 0 = 43 \<or> s ! 0 = 45) \<and> s ! 3 = 58
      \<and> list_all is_digit (take 2 (drop 1 s) @ drop 4 s)
      \<and> int_of_digits (take 2 (drop 1 s)) < 24 \<and> int_of_digits (drop 4 s) < 60)"

definition iso_parse :: "str \<Rightarrow> exn + datetime" where
  "iso_parse s =
     (let bad = Inl (ValueError (ascii ''Invalid isoformat string: '' @ [39] @ s @ [39]))
      in if length s = 10 then
           (case parse_ymd s of None \<Rightarrow> bad | Some d \<Rightarrow> Inr (d * us_per_day))
         else if (length s = 19 \<or> length s = 25 \<and> valid_offset (drop 19 s)) \<and> s ! 10 = 84 then
           (case parse_ymd (take 10 s) of
              None \<Rightarrow> bad
            | Some d \<Rightarrow>
               (case parse_hms (take 8 (drop 11 s)) of
                  None \<Rightarrow> bad
                | Some t \<Rightarrow> Inr (d * us_per_day + t)))
         else bad)"

fun example_str_e :: "exn \<Rightarrow> str" where
  "example_str_e (ValueError m) = m"
| "example_str_e OverflowError = ascii ''date value out of range''"
| "example_str_e AttributeError = ascii ''object has no attribute''"
| "example_str_e (HttpError m) = m"
| "example_str_e (OtherException m) = m"

text \<open>
  A library for the examples: the clock stands at 2024-06-03, lower-casing is that of
  ASCII, and \<open>strftime\<close> prints the number of the datetime.
\<close>

definition example_lib :: pylib where
  "example_lib =
     \<lparr>fromisoformat = iso_parse,
      str_e = example_str_e,
      lower = map (\<lambda>c. if 65 \<le> c \<and> c \<le> 90 then c + 32 else c),
      strftime = (\<lambda>dt. Inr (digits_of dt)),
      today = ascii ''2024-06-03'',
      future = Inr (ascii ''2024-06-10''),
      timestamp = ascii ''1717400000.0''\<rparr>"

text \<open>A service whose constructor found no credentials: \<open>self.service\<close> is \<open>None\<close>.\<close>

definition demo_service :: calendar_service where
  "demo_service =
     \<lparr>is_available = False,
      events_list = (\<lambda>time_min time_max. Inl AttributeError),
      events_insert = (\<lambda>body. Inl AttributeError),
      events_delete = (\<lambda>event_id. Inl AttributeError)\<rparr>"

text \<open>A connected service whose calendar holds the given events.\<close>

definition connected_service :: "event list \<Rightarrow> calendar_service" where
  "connected_service evs =
     \<lparr>is_available = True,
      events_list = (\<lambda>time_min time_max. Inr evs),
      events_insert =
        (\<lambda>body. Inr \<lparr>created_id = Some (ascii ''evt1''),
                      created_summary = body_summary body,
                      created_description = body_description body,
                      created_start = body_start body,
                      created_end = body_end body,
                      created_status = Some (ascii ''confirmed'')\<rparr>),
      events_delete = (\<lambda>event_id. Inr ())\<rparr>"

text \<open>A connected service whose every call fails with an \<open>HttpError\<close>.\<close>

definition failing_service :: calendar_service where
  "failing_service =
     \<lparr>is_available = True,
      events_list = (\<lambda>time_min time_max. Inl (HttpError (ascii ''503''))),
      events_insert = (\<lambda>body. Inl (HttpError (ascii ''503''))),
      events_delete = (\<lambda>event_id. Inl (HttpError (ascii ''503'')))\<rparr>"

text \<open>An event from 09:30 to 10:30 on 2024-06-03, with the times as the provider writes them.\<close>

definition busy_event :: event where
  "busy_event =
     \<lparr>ev_id = ascii ''e1'', ev_title = ascii ''Busy'',
      ev_start_time = Some (ascii ''2024-06-03T09:30:00Z''),
      ev_end_time = Some (ascii ''2024-06-03T10:30:00Z''),
      ev_description = [], ev_attendees = []\<rparr>"

text \<open>Executors: one that answers, one whose answer has no \<open>output\<close>, one that raises.\<close>

definition answering_agent :: agent where
  "answering_agent = (\<lambda>inp. Inr [ascii ''output'' \<mapsto> ascii ''Booked.''])"

definition silent_agent :: agent where
  "silent_agent = (\<lambda>inp. Inr Map.empty)"

definition raising_agent :: agent where
  "raising_agent = (\<lambda>inp. Inl (OtherException (ascii ''rate limit reached'')))"

text \<open>A session store with one session of two turns.\<close>

definition example_sessions :: sessions where
  "example_sessions =
     [ascii ''s1'' \<mapsto> [HumanMessage (ascii ''hello''), AIMessage (ascii ''Hi!'')]]"

section \<open>Properties of the loops and of the time arithmetic\<close>

lemma add_minutes_Inr: "add_minutes s m = Inr r \<Longrightarrow> r = s + m * us_per_minute"
  by (auto simp: add_minutes_def Let_def split: if_splits)

lemma next_day_Inr: "next_day d = Inr d' \<Longrightarrow> d' = d + 1"
  by (auto simp: next_day_def split: if_splits)

lemma slot_is_available_parsed:
  "event_times lib evs = parsed_intervals busy \<Longrightarrow>
   slot_is_available lib s e evs = Inr (\<forall>(b0, b1) \<in> set busy. \<not> overlaps s e b0 b1)"
proof (induction evs arbitrary: busy)
  case Nil
  then show ?case by (simp add: event_times_def parsed_intervals_def)
next
  case (Cons ev evs)
  then obtain b0 b1 rest where busy: "busy = (b0, b1) # rest"
    and st: "event_time lib (ev_start_time ev) = Inr b0"
    and en: "event_time lib (ev_end_time ev) = Inr b1"
    and rest: "event_times lib evs = parsed_intervals rest"
    by (cases busy) (auto simp: event_times_def parsed_intervals_def)
  show ?case
    using Cons.IH [OF rest] by (simp add: busy st en)
qed

lemma hour_loop_Inr:
  "event_times lib evs = parsed_intervals busy \<Longrightarrow>
   hour_loop lib d m evs hs acc = Inr slots \<Longrightarrow>
   slots = acc @ map (spec_slot m) (filter (spec_free busy m) (map (combine d) hs))"
proof (induction hs arbitrary: acc)
  case Nil
  then show ?case by simp
next
  case (Cons h hs)
  from Cons.prems(2) obtain e where e: "add_minutes (combine d h) m = Inr e"
    by (auto simp: Let_def split: sum.splits)
  have e_eq: "e = combine d h + m * us_per_minute"
    using e by (rule add_minutes_Inr)
  have chk: "slot_is_available lib (combine d h) e evs = Inr (spec_free busy m (combine d h))"
    using slot_is_available_parsed [OF Cons.prems(1)] by (simp add: spec_free_def e_eq)
  show ?case
  proof (cases "spec_free busy m (combine d h)")
    case True
    with Cons.prems(2) e chk
    have "hour_loop lib d m evs hs
            (acc @ [\<lparr>slot_start_time = combine d h, slot_end_time = e, slot_available = True\<rparr>])
          = Inr slots"
      by (simp add: Let_def)
    from Cons.IH [OF Cons.prems(1) this] True show ?thesis
      by (simp add: spec_slot_def e_eq)
  next
    case False
    with Cons.prems(2) e chk have "hour_loop lib d m evs hs acc = Inr slots"
      by (simp add: Let_def)
    from Cons.IH [OF Cons.prems(1) this] False show ?thesis by simp
  qed
qed

lemma spec_candidates_step:
  "d0 \<le> d1 \<Longrightarrow>
   spec_candidates hs d0 d1 =
     (if weekday d0 < 5 then map (combine d0) hs else []) @ spec_candidates hs (d0 + 1) d1"
  by (simp add: spec_candidates_def upto_rec1 [of d0 d1])

lemma spec_candidates_empty: "\<not> d0 \<le> d1 \<Longrightarrow> spec_candidates hs d0 d1 = []"
  by (simp add: spec_candidates_def)

lemma availability_loop_Inr:
  "event_times lib evs = parsed_intervals busy \<Longrightarrow>
   availability_loop lib d0 d1 m evs acc = Inr slots \<Longrightarrow>
   slots = acc @ map (spec_slot m) (filter (spec_free busy m) (spec_candidates [9..16] d0 d1))"
proof (induction lib d0 d1 m evs acc rule: availability_loop.induct)
  case (1 lib d0 d1 m evs acc)
  show ?case
  proof (cases "d0 \<le> d1")
    case False
    with "1.prems"(2) show ?thesis
      by (simp add: availability_loop.simps spec_candidates_empty)
  next
    case True
    let ?day = "if weekday d0 < 5 then hour_loop lib d0 m evs [9..16] acc else Inr acc"
    from "1.prems"(2) True obtain mid d' where
      mid: "?day = Inr mid" and nd: "next_day d0 = Inr d'"
      and rec: "availability_loop lib d' d1 m evs mid = Inr slots"
      by (subst (asm) availability_loop.simps) (auto split: sum.splits if_splits)
    have d': "d' = d0 + 1" using nd by (rule next_day_Inr)
    have mid_eq: "mid = acc @ map (spec_slot m) (filter (spec_free busy m)
                    (if weekday d0 < 5 then map (combine d0) [9..16] else []))"
      using mid hour_loop_Inr [OF "1.prems"(1), of d0 m "[9..16]" acc mid]
      by (auto split: if_splits)
    have "slots = mid @ map (spec_slot m) (filter (spec_free busy m) (spec_candidates [9..16] d' d1))"
      using "1.IH" [OF True mid nd "1.prems"(1) rec] .
    then show ?thesis
      by (simp add: mid_eq d' spec_candidates_step [OF True])
  qed
qed


lemma spec_candidates_mem:
  "y \<in> set (spec_candidates hs d0 d1) \<longleftrightarrow>
     (\<exists>d h. d0 \<le> d \<and> d \<le> d1 \<and> weekday d < 5 \<and> h \<in> set hs \<and> y = combine d h)"
  by (auto simp: spec_candidates_def split: if_splits)

lemma combine_hours: "combine d h = (24 * d + h) * us_per_hour"
  by (simp add: combine_def us_per_day_def us_per_hour_def algebra_simps)

lemma us_per_hour_pos: "0 < us_per_hour"
  by (simp add: us_per_hour_def)

lemma combine_less_next_day:
  assumes "0 \<le> h" "h < 24" "0 \<le> h'" "d < d'"
  shows "combine d h < combine d' h'"
proof -
  from assms have "24 * d + h < 24 * d' + h'" by linarith
  with us_per_hour_pos show ?thesis
    by (simp only: combine_hours mult_less_cancel_right_pos)
qed

lemma business_hours: "[9..16] = [9, 10, 11, 12, 13, 14, 15, (16::int)]"
  by (simp add: upto_rec_numeral)

lemma business_hours_sorted: "sorted_wrt (<) (map (combine d) [9..16])"
  unfolding business_hours by (simp add: combine_hours us_per_hour_def)

lemma sorted_candidates: "sorted_wrt (<) (spec_candidates [9..16] d0 d1)"
proof (induction "nat (d1 + 1 - d0)" arbitrary: d0)
  case 0
  then have "\<not> d0 \<le> d1" by simp
  then show ?case by (simp add: spec_candidates_empty)
next
  case (Suc n)
  then have le: "d0 \<le> d1" and n: "n = nat (d1 + 1 - (d0 + 1))" by simp_all
  have rest: "sorted_wrt (<) (spec_candidates [9..16] (d0 + 1) d1)"
    using Suc.hyps(1) [OF n] .
  have cross: "x < y"
    if "x \<in> set (map (combine d0) [9..16])" "y \<in> set (spec_candidates [9..16] (d0 + 1) d1)"
    for x y
  proof -
    from that(1) have "\<exists>h. h \<in> set [9..16] \<and> x = combine d0 h"
      unfolding set_map image_iff by blast
    then obtain h where h: "9 \<le> h" "h \<le> 16" "x = combine d0 h"
      unfolding set_upto atLeastAtMost_iff by blast
    from that(2) obtain d h' where d: "d0 + 1 \<le> d" "9 \<le> h'" "y = combine d h'"
      unfolding spec_candidates_mem set_upto atLeastAtMost_iff by blast
    show ?thesis
      using combine_less_next_day [of h h' d0 d] h d by simp
  qed
  show ?case
    unfolding spec_candidates_step [OF le]
    using rest cross business_hours_sorted [of d0]
    by (auto simp: sorted_wrt_append simp del: upto.simps)
qed

lemma hour_loop_returns:
  "event_times lib evs = parsed_intervals busy \<Longrightarrow>
   \<forall>h \<in> set hs. \<exists>r. add_minutes (combine d h) m = Inr r \<Longrightarrow>
   \<exists>slots. hour_loop lib d m evs hs acc = Inr slots"
proof (induction hs arbitrary: acc)
  case Nil
  then show ?case by simp
next
  case (Cons h hs)
  from Cons.prems(2) obtain r where r: "add_minutes (combine d h) m = Inr r" by auto
  have rest: "\<forall>h \<in> set hs. \<exists>r. add_minutes (combine d h) m = Inr r"
    using Cons.prems(2) by simp
  show ?case
    using Cons.IH [OF Cons.prems(1) rest] r slot_is_available_parsed [OF Cons.prems(1)]
    by (simp add: Let_def)
qed

lemma availability_loop_returns:
  "event_times lib evs = parsed_intervals busy \<Longrightarrow>
   d1 < MAXORDINAL \<Longrightarrow>
   \<forall>d h. d0 \<le> d \<and> d \<le> d1 \<and> 9 \<le> h \<and> h \<le> 16 \<longrightarrow> (\<exists>r. add_minutes (combine d h) m = Inr r) \<Longrightarrow>
   \<exists>slots. availability_loop lib d0 d1 m evs acc = Inr slots"
proof (induction lib d0 d1 m evs acc rule: availability_loop.induct)
  case (1 lib d0 d1 m evs acc)
  show ?case
  proof (cases "d0 \<le> d1")
    case False
    then show ?thesis by (simp add: availability_loop.simps)
  next
    case True
    let ?day = "if weekday d0 < 5 then hour_loop lib d0 m evs [9..16] acc else Inr acc"
    have "\<forall>h \<in> set [9..16]. \<exists>r. add_minutes (combine d0 h) m = Inr r"
      using "1.prems"(3) True by simp
    from hour_loop_returns [OF "1.prems"(1) this]
    obtain mid where mid: "?day = Inr mid" by (cases "weekday d0 < 5") auto
    have nd: "next_day d0 = Inr (d0 + 1)"
      using True "1.prems"(2) by (simp add: next_day_def)
    have later: "\<forall>d h. d0 + 1 \<le> d \<and> d \<le> d1 \<and> 9 \<le> h \<and> h \<le> 16
                  \<longrightarrow> (\<exists>r. add_minutes (combine d h) m = Inr r)"
      using "1.prems"(3) by auto
    from "1.IH" [OF True mid nd "1.prems"(1) "1.prems"(2) later]
    obtain slots where "availability_loop lib (d0 + 1) d1 m evs mid = Inr slots" by auto
    then show ?thesis
      using True mid nd by (subst availability_loop.simps) simp
  qed
qed

lemma add_minutes_business_hours:
  "1 \<le> d \<Longrightarrow> d < MAXORDINAL \<Longrightarrow> 9 \<le> h \<Longrightarrow> h \<le> 16 \<Longrightarrow> 0 \<le> m \<Longrightarrow> m \<le> 1440 \<Longrightarrow>
   \<exists>r. add_minutes (combine d h) m = Inr r"
  unfolding add_minutes_def combine_def us_per_day_def us_per_hour_def us_per_minute_def
    MAXORDINAL_def Let_def
  by simp

lemma mock_hour_loop_Inr:
  "mock_hour_loop d m hs acc = Inr slots \<Longrightarrow>
   slots = acc @ map (spec_slot m) (map (combine d) hs)"
proof (induction hs arbitrary: acc)
  case Nil
  then show ?case by simp
next
  case (Cons h hs)
  from Cons.prems obtain e where e: "add_minutes (combine d h) m = Inr e"
    by (auto simp: Let_def split: sum.splits)
  have e_eq: "e = combine d h + m * us_per_minute"
    using e by (rule add_minutes_Inr)
  from Cons.prems e
  have "mock_hour_loop d m hs
          (acc @ [\<lparr>slot_start_time = combine d h, slot_end_time = e, slot_available = True\<rparr>])
        = Inr slots"
    by (simp add: Let_def)
  from Cons.IH [OF this] show ?case
    by (simp add: spec_slot_def e_eq)
qed

lemma mock_loop_Inr:
  "mock_loop d0 d1 m acc = Inr slots \<Longrightarrow>
   take 10 slots = take 10 (acc @ map (spec_slot m) (spec_candidates [9, 11, 14, 16] d0 d1))"
proof (induction d0 d1 m acc rule: mock_loop.induct)
  case (1 d0 d1 m acc)
  show ?case
  proof (cases "d0 \<le> d1 \<and> length acc < 10")
    case False
    with "1.prems" have "slots = acc" by (simp add: mock_loop.simps)
    with False show ?thesis
      by (auto simp: spec_candidates_empty)
  next
    case True
    then have le: "d0 \<le> d1" by simp
    let ?day = "if weekday d0 < 5 then mock_hour_loop d0 m [9, 11, 14, 16] acc else Inr acc"
    from "1.prems" True obtain mid d' where
      mid: "?day = Inr mid" and nd: "next_day d0 = Inr d'"
      and rec: "mock_loop d' d1 m mid = Inr slots"
      by (subst (asm) mock_loop.simps) (auto split: sum.splits if_splits)
    have d': "d' = d0 + 1" using nd by (rule next_day_Inr)
    have mid_eq: "mid = acc @ map (spec_slot m)
                    (if weekday d0 < 5 then map (combine d0) [9, 11, 14, 16] else [])"
      using mid mock_hour_loop_Inr [of d0 m "[9, 11, 14, 16]" acc mid]
      by (auto split: if_splits)
    have "take 10 slots = take 10 (mid @ map (spec_slot m) (spec_candidates [9, 11, 14, 16] d' d1))"
      using "1.IH" [OF True mid nd rec] .
    then show ?thesis
      by (simp add: mid_eq d' spec_candidates_step [OF le])
  qed
qed

lemma spec_slot_inj: "spec_slot m x = spec_slot m y \<Longrightarrow> x = y"
  by (simp add: spec_slot_def)

lemma spec_slot_mem: "spec_slot m x \<in> set (map (spec_slot m) xs) \<longleftrightarrow> x \<in> set xs"
  by (auto dest: spec_slot_inj)

lemma get_mock_availability_length:
  "get_mock_availability lib start_date end_date m = Inr slots \<Longrightarrow> length slots \<le> 10"
  by (auto simp: get_mock_availability_def split: sum.splits)

lemma real_availability_length:
  "real_availability lib self start_date end_date m = Inr slots \<Longrightarrow> length slots \<le> 20"
  by (auto simp: real_availability_def split: sum.splits)

lemma get_availability_length:
  "get_availability lib self start_date end_date m = Inr slots \<Longrightarrow> length slots \<le> 20"
proof -
  assume r: "get_availability lib self start_date end_date m = Inr slots"
  then consider "get_mock_availability lib start_date end_date m = Inr slots"
    | "real_availability lib self start_date end_date m = Inr slots"
    by (auto simp: get_availability_def split: if_splits sum.splits)
  then show ?thesis
  proof cases
    case 1
    then have "length slots \<le> 10" by (rule get_mock_availability_length)
    then show ?thesis by simp
  next
    case 2
    then show ?thesis by (rule real_availability_length)
  qed
qed

lemma agent_request_new_session:
  "agent_request lib
     (if effective_session_id lib session_id \<notin> dom sessions
      then sessions(effective_session_id lib session_id \<mapsto> []) else sessions)
     message session_id
   = agent_request lib sessions message session_id"
  by (auto simp: agent_request_def transcript_def split: option.splits)

lemma transcript_new_session:
  "transcript (if sid \<notin> dom sessions then sessions(sid \<mapsto> []) else sessions) other
   = transcript sessions other"
  by (auto simp: transcript_def split: option.splits)

section \<open>The claims\<close>

text \<open>
  Claim C1. For events whose times parse to the busy intervals \<open>busy\<close>, the check of
  \<open>get_availability\<close> marks the slot from \<open>s\<close> to \<open>e\<close> available exactly when no busy
  interval \<open>[b0, b1)\<close> has \<open>s < b1\<close> and \<open>e > b0\<close>. So a slot that ends at or before the
  start of every busy interval, or starts at or after its end, is available (touching
  endpoints do not conflict), and a non-empty slot that some busy interval contains,
  overlaps on the left, overlaps on the right or matches exactly is unavailable. In the
  list the loop of \<open>get_availability\<close> builds, a candidate slot of a weekday of the range
  is present exactly when it overlaps no busy interval.
\<close>

theorem slot_available_iff_no_overlap:
  assumes parsed: "event_times lib existing_events = parsed_intervals busy"
  shows "slot_is_available lib s e existing_events
           = Inr (\<forall>(b0, b1) \<in> set busy. \<not> (s < b1 \<and> e > b0))
    \<and> ((\<forall>(b0, b1) \<in> set busy. e \<le> b0 \<or> s \<ge> b1)
          \<longrightarrow> slot_is_available lib s e existing_events = Inr True)
    \<and> (s < e \<and> (\<exists>(b0, b1) \<in> set busy.
                     (b0 \<le> s \<and> e \<le> b1) \<or> (b0 < s \<and> s < b1 \<and> b1 < e)
                     \<or> (s < b0 \<and> b0 < e \<and> e < b1) \<or> (b0 = s \<and> b1 = e))
          \<longrightarrow> slot_is_available lib s e existing_events = Inr False)
    \<and> (\<forall>slots d h.
          availability_loop lib d0 d1 m existing_events [] = Inr slots
          \<and> d0 \<le> d \<and> d \<le> d1 \<and> weekday d < 5 \<and> 9 \<le> h \<and> h \<le> 16
          \<longrightarrow> (spec_slot m (combine d h) \<in> set slots
                 \<longleftrightarrow> (\<forall>(b0, b1) \<in> set busy.
                        \<not> (combine d h < b1 \<and> combine d h + m * us_per_minute > b0))))"
proof (intro conjI allI impI)
  show chk: "slot_is_available lib s e existing_events
               = Inr (\<forall>(b0, b1) \<in> set busy. \<not> (s < b1 \<and> e > b0))"
    using slot_is_available_parsed [OF parsed, of s e] by (simp add: overlaps_def)
  show "slot_is_available lib s e existing_events = Inr True"
    if free: "\<forall>(b0, b1) \<in> set busy. e \<le> b0 \<or> s \<ge> b1"
  proof -
    have "\<not> (s < b1 \<and> e > b0)" if "(b0, b1) \<in> set busy" for b0 b1
    proof -
      from free that have "e \<le> b0 \<or> s \<ge> b1" by blast
      then show ?thesis by linarith
    qed
    then have "\<forall>(b0, b1) \<in> set busy. \<not> (s < b1 \<and> e > b0)" by blast
    then have "(\<forall>(b0, b1) \<in> set busy. \<not> (s < b1 \<and> e > b0)) = True" by (rule eqTrueI)
    then show ?thesis by (simp only: chk)
  qed
  show "slot_is_available lib s e existing_events = Inr False"
    if hit: "s < e \<and> (\<exists>(b0, b1) \<in> set busy.
                     (b0 \<le> s \<and> e \<le> b1) \<or> (b0 < s \<and> s < b1 \<and> b1 < e)
                     \<or> (s < b0 \<and> b0 < e \<and> e < b1) \<or> (b0 = s \<and> b1 = e))"
  proof -
    from hit obtain b0 b1 where b: "(b0, b1) \<in> set busy"
      and c: "(b0 \<le> s \<and> e \<le> b1) \<or> (b0 < s \<and> s < b1 \<and> b1 < e)
                     \<or> (s < b0 \<and> b0 < e \<and> e < b1) \<or> (b0 = s \<and> b1 = e)"
      by blast
    from hit have "s < e" by (rule conjunct1)
    with c have "s < b1 \<and> e > b0" by linarith
    with b have "\<not> (\<forall>(b0, b1) \<in> set busy. \<not> (s < b1 \<and> e > b0))" by blast
    then have "(\<forall>(b0, b1) \<in> set busy. \<not> (s < b1 \<and> e > b0)) = False"
      by simp
    then show ?thesis by (simp only: chk)
  qed
  show "spec_slot m (combine d h) \<in> set slots
                 \<longleftrightarrow> (\<forall>(b0, b1) \<in> set busy.
                        \<not> (combine d h < b1 \<and> combine d h + m * us_per_minute > b0))"
    if a: "availability_loop lib d0 d1 m existing_events [] = Inr slots
          \<and> d0 \<le> d \<and> d \<le> d1 \<and> weekday d < 5 \<and> 9 \<le> h \<and> h \<le> 16"
    for slots d h
  proof -
    from a have l: "availability_loop lib d0 d1 m existing_events [] = Inr slots"
      by (rule conjunct1)
    have slots: "slots = map (spec_slot m)
                   (filter (spec_free busy m) (spec_candidates [9..16] d0 d1))"
      using availability_loop_Inr [OF parsed l] by simp
    have cand: "combine d h \<in> set (spec_candidates [9..16] d0 d1)"
      unfolding spec_candidates_mem set_upto atLeastAtMost_iff using a by blast
    show ?thesis
      unfolding slots spec_slot_mem using cand by (simp add: spec_free_def overlaps_def)
  qed
qed

theorem slot_available_iff_no_overlap_witness:
  "event_times example_lib [busy_event]
     = parsed_intervals [(combine (ymd2ord 2024 6 3) 9 + 30 * us_per_minute,
                          combine (ymd2ord 2024 6 3) 10 + 30 * us_per_minute)]
   \<and> slot_is_available example_lib (combine (ymd2ord 2024 6 3) 10)
        (combine (ymd2ord 2024 6 3) 11) [busy_event] = Inr False
   \<and> slot_is_available example_lib (combine (ymd2ord 2024 6 3) 11)
        (combine (ymd2ord 2024 6 3) 12) [busy_event] = Inr True"
proof -
  let ?busy = "[(combine (ymd2ord 2024 6 3) 9 + 30 * us_per_minute,
                 combine (ymd2ord 2024 6 3) 10 + 30 * us_per_minute)]"
  have h: "event_times example_lib [busy_event] = parsed_intervals ?busy"
    by code_simp
  have a: "slot_is_available example_lib (combine (ymd2ord 2024 6 3) 10)
             (combine (ymd2ord 2024 6 3) 11) [busy_event]
           = Inr (\<forall>(b0, b1) \<in> set ?busy.
                    \<not> (combine (ymd2ord 2024 6 3) 10 < b1 \<and> combine (ymd2ord 2024 6 3) 11 > b0))"
    using slot_available_iff_no_overlap [OF h] by (rule conjunct1)
  have b: "slot_is_available example_lib (combine (ymd2ord 2024 6 3) 11)
             (combine (ymd2ord 2024 6 3) 12) [busy_event]
           = Inr (\<forall>(b0, b1) \<in> set ?busy.
                    \<not> (combine (ymd2ord 2024 6 3) 11 < b1 \<and> combine (ymd2ord 2024 6 3) 12 > b0))"
    using slot_available_iff_no_overlap [OF h] by (rule conjunct1)
  have a': "(\<forall>(b0, b1) \<in> set ?busy.
                    \<not> (combine (ymd2ord 2024 6 3) 10 < b1 \<and> combine (ymd2ord 2024 6 3) 11 > b0))
            = False"
    by (simp add: combine_def us_per_day_def us_per_hour_def us_per_minute_def)
  have b': "(\<forall>(b0, b1) \<in> set ?busy.
                    \<not> (combine (ymd2ord 2024 6 3) 11 < b1 \<and> combine (ymd2ord 2024 6 3) 12 > b0))
            = True"
    by (simp add: combine_def us_per_day_def us_per_hour_def us_per_minute_def)
  show ?thesis
    using h a b by (simp only: a' b' simp_thms)
qed

text \<open>
  Claim C10. When the provider is unavailable, \<open>delete_event\<close> returns \<open>True\<close> for every
  event id, whatever the calls of the service would do: the id is not read and no call
  is made.
\<close>

theorem delete_event_unavailable:
  "\<not> is_available self \<Longrightarrow> delete_event self event_id = Inr True"
  by (simp add: delete_event_def check_availability_def)

theorem delete_event_unavailable_witness:
  "\<not> is_available demo_service \<and> delete_event demo_service (ascii ''evt1'') = Inr True"
proof -
  have h: "\<not> is_available demo_service" by (simp add: demo_service_def)
  show ?thesis using h delete_event_unavailable [OF h, of "ascii ''evt1''"] by simp
qed

text \<open>
  Claim C5. The claim says that both \<open>create_event\<close> and \<open>delete_event\<close> raise a provider
  \<open>HttpError\<close> again. \<open>delete_event\<close> does not: on a connected service whose delete call
  fails with an \<open>HttpError\<close> it returns \<open>False\<close>.
\<close>

theorem delete_event_reraise_counterexample:
  "is_available failing_service
   \<and> events_delete failing_service (ascii ''evt1'') = Inl (HttpError (ascii ''503''))
   \<and> delete_event failing_service (ascii ''evt1'') \<noteq> Inl (HttpError (ascii ''503''))
   \<and> delete_event failing_service (ascii ''evt1'') = Inr False"
  by (simp add: failing_service_def delete_event_def check_availability_def)

text \<open>
  Claim C5, as the code has it: on a connected service \<open>create_event\<close> raises the
  \<open>HttpError\<close> of the provider again, while \<open>delete_event\<close> turns it into the result
  \<open>False\<close> and lets any other exception through; on an unavailable service
  \<open>create_event\<close> returns the mock event and \<open>delete_event\<close> returns \<open>True\<close>, neither raising.
\<close>

theorem provider_failure_handling:
  "(is_available self
      \<and> events_insert self (insert_body self title description start end email) = Inl (HttpError m)
      \<longrightarrow> create_event lib self title description start end email = Inl (HttpError m))
   \<and> (is_available self \<and> events_delete self event_id = Inl (HttpError m)
      \<longrightarrow> delete_event self event_id = Inr False)
   \<and> (is_available self \<and> events_delete self event_id = Inl e \<and> \<not> is_HttpError e
      \<longrightarrow> delete_event self event_id = Inl e)
   \<and> (\<not> is_available self
      \<longrightarrow> (\<exists>ev. create_event lib self title description start end email = Inr ev
                \<and> created_id ev = Some (ascii ''mock_event_'' @ timestamp lib)
                \<and> created_status ev = Some (ascii ''mock_created''))
          \<and> delete_event self event_id = Inr True)"
  by (simp add: create_event_def delete_event_def check_availability_def)

theorem provider_failure_handling_witness:
  "is_available failing_service
   \<and> events_insert failing_service
        (insert_body failing_service (ascii ''Standup'') (ascii ''Daily'')
           (ascii ''2024-06-03T09:00:00'') (ascii ''2024-06-03T10:00:00'') None)
       = Inl (HttpError (ascii ''503''))
   \<and> create_event example_lib failing_service (ascii ''Standup'') (ascii ''Daily'')
        (ascii ''2024-06-03T09:00:00'') (ascii ''2024-06-03T10:00:00'') None
       = Inl (HttpError (ascii ''503''))
   \<and> events_delete failing_service (ascii ''evt1'') = Inl (HttpError (ascii ''503''))
   \<and> delete_event failing_service (ascii ''evt1'') = Inr False
   \<and> \<not> is_available demo_service
   \<and> delete_event demo_service (ascii ''evt1'') = Inr True"
proof -
  have a: "is_available failing_service" by (simp add: failing_service_def)
  have i: "events_insert failing_service
        (insert_body failing_service (ascii ''Standup'') (ascii ''Daily'')
           (ascii ''2024-06-03T09:00:00'') (ascii ''2024-06-03T10:00:00'') None)
       = Inl (HttpError (ascii ''503''))" by (simp add: failing_service_def)
  have d: "events_delete failing_service (ascii ''evt1'') = Inl (HttpError (ascii ''503''))"
    by (simp add: failing_service_def)
  have u: "\<not> is_available demo_service" by (simp add: demo_service_def)
  show ?thesis
    using a i d u
      provider_failure_handling [of failing_service "ascii ''Standup''" "ascii ''Daily''"
        "ascii ''2024-06-03T09:00:00''" "ascii ''2024-06-03T10:00:00''" None "ascii ''503''"
        example_lib "ascii ''evt1''"]
      provider_failure_handling [of demo_service "ascii ''Standup''" "ascii ''Daily''"
        "ascii ''2024-06-03T09:00:00''" "ascii ''2024-06-03T10:00:00''" None "ascii ''503''"
        example_lib "ascii ''evt1''"]
    by simp
qed

text \<open>
  Claim C2. 2024-06-03 is a Monday. For that single day and 60 minutes, a connected
  calendar without events gives exactly the eight slots starting at 9, 10, ..., 16; with
  one event from 09:30 to 10:30 the slots of 9 and 10 are gone and the slots from 11 on
  remain.
\<close>

theorem monday_scenario:
  "weekday (ymd2ord 2024 6 3) = 0
   \<and> get_availability example_lib (connected_service []) (ascii ''2024-06-03'')
        (ascii ''2024-06-03'') 60
      = Inr (map (spec_slot 60 \<circ> combine (ymd2ord 2024 6 3)) [9, 10, 11, 12, 13, 14, 15, 16])
   \<and> event_times example_lib [busy_event]
      = parsed_intervals [(combine (ymd2ord 2024 6 3) 9 + 30 * us_per_minute,
                           combine (ymd2ord 2024 6 3) 10 + 30 * us_per_minute)]
   \<and> get_availability example_lib (connected_service [busy_event]) (ascii ''2024-06-03'')
        (ascii ''2024-06-03'') 60
      = Inr (map (spec_slot 60 \<circ> combine (ymd2ord 2024 6 3)) [11, 12, 13, 14, 15, 16])"
  by code_simp

text \<open>
  Claim C7. Whatever \<open>get_availability\<close> returns has at most 20 slots. On a connected
  service, when the computation meets no exception, the result is the list of the first
  20 free slots of the candidate slots of the range, and these candidates are in strictly
  increasing order of their start. For dates inside the range of the calendar, events
  that parse and a duration between 0 minutes and a day, the computation meets no
  exception.
\<close>

theorem get_availability_first_20:
  "(get_availability lib self start_date end_date m = Inr result \<longrightarrow> length result \<le> 20)
   \<and> (is_available self
       \<and> fromisoformat lib start_date = Inr start_dt
       \<and> fromisoformat lib end_date = Inr end_dt
       \<and> get_events lib self start_date end_date = Inr existing_events
       \<and> event_times lib existing_events = parsed_intervals busy
       \<and> real_availability lib self start_date end_date m = Inr slots
       \<longrightarrow> get_availability lib self start_date end_date m = Inr slots
           \<and> slots = spec_first_20_available busy m (date_of start_dt) (date_of end_dt)
           \<and> sorted_wrt (<) (spec_candidates [9..16] (date_of start_dt) (date_of end_dt)))
   \<and> (is_available self
       \<and> fromisoformat lib start_date = Inr start_dt
       \<and> fromisoformat lib end_date = Inr end_dt
       \<and> get_events lib self start_date end_date = Inr existing_events
       \<and> event_times lib existing_events = parsed_intervals busy
       \<and> 1 \<le> date_of start_dt \<and> date_of end_dt < MAXORDINAL \<and> 0 \<le> m \<and> m \<le> 1440
       \<longrightarrow> (\<exists>slots. real_availability lib self start_date end_date m = Inr slots))"
proof (intro conjI impI)
  show "length result \<le> 20" if "get_availability lib self start_date end_date m = Inr result"
    using that by (rule get_availability_length)
next
  assume a: "is_available self
       \<and> fromisoformat lib start_date = Inr start_dt
       \<and> fromisoformat lib end_date = Inr end_dt
       \<and> get_events lib self start_date end_date = Inr existing_events
       \<and> event_times lib existing_events = parsed_intervals busy
       \<and> real_availability lib self start_date end_date m = Inr slots"
  then have av: "is_available self" and p1: "fromisoformat lib start_date = Inr start_dt"
    and p2: "fromisoformat lib end_date = Inr end_dt"
    and ev: "get_events lib self start_date end_date = Inr existing_events"
    and parsed: "event_times lib existing_events = parsed_intervals busy"
    and real: "real_availability lib self start_date end_date m = Inr slots"
    by blast+
  show "get_availability lib self start_date end_date m = Inr slots"
    using av real by (simp add: get_availability_def check_availability_def)
  from real obtain all_slots where
    l: "availability_loop lib (date_of start_dt) (date_of end_dt) m existing_events [] = Inr all_slots"
    and t: "slots = take 20 all_slots"
    by (auto simp: real_availability_def p1 p2 ev split: sum.splits)
  show "slots = spec_first_20_available busy m (date_of start_dt) (date_of end_dt)"
    using availability_loop_Inr [OF parsed l] t by (simp add: spec_first_20_available_def)
  show "sorted_wrt (<) (spec_candidates [9..16] (date_of start_dt) (date_of end_dt))"
    by (rule sorted_candidates)
next
  assume a: "is_available self
       \<and> fromisoformat lib start_date = Inr start_dt
       \<and> fromisoformat lib end_date = Inr end_dt
       \<and> get_events lib self start_date end_date = Inr existing_events
       \<and> event_times lib existing_events = parsed_intervals busy
       \<and> 1 \<le> date_of start_dt \<and> date_of end_dt < MAXORDINAL \<and> 0 \<le> m \<and> m \<le> 1440"
  then have p1: "fromisoformat lib start_date = Inr start_dt"
    and p2: "fromisoformat lib end_date = Inr end_dt"
    and ev: "get_events lib self start_date end_date = Inr existing_events"
    and parsed: "event_times lib existing_events = parsed_intervals busy"
    and lo: "1 \<le> date_of start_dt" and hi: "date_of end_dt < MAXORDINAL"
    and m: "0 \<le> m" "m \<le> 1440"
    by blast+
  have "\<forall>d h. date_of start_dt \<le> d \<and> d \<le> date_of end_dt \<and> 9 \<le> h \<and> h \<le> 16
          \<longrightarrow> (\<exists>r. add_minutes (combine d h) m = Inr r)"
  proof (intro allI impI)
    fix d h :: int
    assume r: "date_of start_dt \<le> d \<and> d \<le> date_of end_dt \<and> 9 \<le> h \<and> h \<le> 16"
    with lo hi have "1 \<le> d" "d < MAXORDINAL" "9 \<le> h" "h \<le> 16" by linarith+
    then show "\<exists>r. add_minutes (combine d h) m = Inr r"
      using m by (rule add_minutes_business_hours)
  qed
  from availability_loop_returns [OF parsed hi this]
  obtain all_slots where
    "availability_loop lib (date_of start_dt) (date_of end_dt) m existing_events [] = Inr all_slots"
    by blast
  then show "\<exists>slots. real_availability lib self start_date end_date m = Inr slots"
    by (simp add: real_availability_def p1 p2 ev)
qed

theorem get_availability_first_20_witness:
  "is_available (connected_service [busy_event])
   \<and> fromisoformat example_lib (ascii ''2024-06-03'') = Inr (ymd2ord 2024 6 3 * us_per_day)
   \<and> fromisoformat example_lib (ascii ''2024-06-07'') = Inr (ymd2ord 2024 6 7 * us_per_day)
   \<and> get_events example_lib (connected_service [busy_event]) (ascii ''2024-06-03'') (ascii ''2024-06-07'')
        = Inr [busy_event]
   \<and> event_times example_lib [busy_event] = parsed_intervals
          [(combine (ymd2ord 2024 6 3) 9 + 30 * us_per_minute,
            combine (ymd2ord 2024 6 3) 10 + 30 * us_per_minute)]
   \<and> real_availability example_lib (connected_service [busy_event]) (ascii ''2024-06-03'') (ascii ''2024-06-07'') 60
        = Inr
          (map (spec_slot 60 \<circ> combine (ymd2ord 2024 6 3)) [11, 12, 13, 14, 15, 16]
           @ map (spec_slot 60 \<circ> combine (ymd2ord 2024 6 4)) [9, 10, 11, 12, 13, 14, 15, 16]
           @ map (spec_slot 60 \<circ> combine (ymd2ord 2024 6 5)) [9, 10, 11, 12, 13, 14])
   \<and> get_availability example_lib (connected_service [busy_event]) (ascii ''2024-06-03'') (ascii ''2024-06-07'') 60
        = Inr
          (map (spec_slot 60 \<circ> combine (ymd2ord 2024 6 3)) [11, 12, 13, 14, 15, 16]
           @ map (spec_slot 60 \<circ> combine (ymd2ord 2024 6 4)) [9, 10, 11, 12, 13, 14, 15, 16]
           @ map (spec_slot 60 \<circ> combine (ymd2ord 2024 6 5)) [9, 10, 11, 12, 13, 14])
   \<and> (map (spec_slot 60 \<circ> combine (ymd2ord 2024 6 3)) [11, 12, 13, 14, 15, 16]
           @ map (spec_slot 60 \<circ> combine (ymd2ord 2024 6 4)) [9, 10, 11, 12, 13, 14, 15, 16]
           @ map (spec_slot 60 \<circ> combine (ymd2ord 2024 6 5)) [9, 10, 11, 12, 13, 14])
        = spec_first_20_available
          [(combine (ymd2ord 2024 6 3) 9 + 30 * us_per_minute,
            combine (ymd2ord 2024 6 3) 10 + 30 * us_per_minute)]
          60 (date_of (ymd2ord 2024 6 3 * us_per_day)) (date_of (ymd2ord 2024 6 7 * us_per_day))
   \<and> length
          (map (spec_slot 60 \<circ> combine (ymd2ord 2024 6 3)) [11, 12, 13, 14, 15, 16]
           @ map (spec_slot 60 \<circ> combine (ymd2ord 2024 6 4)) [9, 10, 11, 12, 13, 14, 15, 16]
           @ map (spec_slot 60 \<circ> combine (ymd2ord 2024 6 5)) [9, 10, 11, 12, 13, 14])
        = 20
   \<and> length (filter (spec_free
          [(combine (ymd2ord 2024 6 3) 9 + 30 * us_per_minute,
            combine (ymd2ord 2024 6 3) 10 + 30 * us_per_minute)]
          60) (spec_candidates [9..16] (ymd2ord 2024 6 3) (ymd2ord 2024 6 7))) = 38"
proof -
  let ?busy = "[(combine (ymd2ord 2024 6 3) 9 + 30 * us_per_minute,
            combine (ymd2ord 2024 6 3) 10 + 30 * us_per_minute)]"
  let ?slots = "(map (spec_slot 60 \<circ> combine (ymd2ord 2024 6 3)) [11, 12, 13, 14, 15, 16]
           @ map (spec_slot 60 \<circ> combine (ymd2ord 2024 6 4)) [9, 10, 11, 12, 13, 14, 15, 16]
           @ map (spec_slot 60 \<circ> combine (ymd2ord 2024 6 5)) [9, 10, 11, 12, 13, 14])"
  have av: "is_available (connected_service [busy_event])"
    by (simp add: connected_service_def)
  have p1: "fromisoformat example_lib (ascii ''2024-06-03'') = Inr (ymd2ord 2024 6 3 * us_per_day)"
    by code_simp
  have p2: "fromisoformat example_lib (ascii ''2024-06-07'') = Inr (ymd2ord 2024 6 7 * us_per_day)"
    by code_simp
  have ev: "get_events example_lib (connected_service [busy_event]) (ascii ''2024-06-03'') (ascii ''2024-06-07'')
        = Inr [busy_event]"
    by code_simp
  have parsed: "event_times example_lib [busy_event] = parsed_intervals ?busy"
    by code_simp
  have real: "real_availability example_lib (connected_service [busy_event]) (ascii ''2024-06-03'') (ascii ''2024-06-07'') 60
        = Inr ?slots"
    by code_simp
  have len: "length ?slots = 20"
    by simp
  have free: "length (filter (spec_free ?busy 60)
                (spec_candidates [9..16] (ymd2ord 2024 6 3) (ymd2ord 2024 6 7))) = 38"
    by code_simp
  have res: "get_availability example_lib (connected_service [busy_event]) (ascii ''2024-06-03'') (ascii ''2024-06-07'') 60
               = Inr ?slots
             \<and> ?slots = spec_first_20_available ?busy 60
                 (date_of (ymd2ord 2024 6 3 * us_per_day)) (date_of (ymd2ord 2024 6 7 * us_per_day))"
    using av p1 p2 ev parsed real
      get_availability_first_20 [where lib = example_lib
        and self = "connected_service [busy_event]"
        and start_date = "ascii ''2024-06-03''" and end_date = "ascii ''2024-06-07''"
        and m = 60 and start_dt = "ymd2ord 2024 6 3 * us_per_day"
        and end_dt = "ymd2ord 2024 6 7 * us_per_day"
        and existing_events = "[busy_event]"
        and busy = ?busy and slots = ?slots]
    by blast
  show ?thesis
    using av p1 p2 ev parsed real res len free by (intro conjI) blast+
qed

text \<open>
  Claim C6. When the mock availability returns, its result is determined by the two
  dates and the duration alone: it is the first 10 of the slots that start at 9, 11, 14
  and 16 on the weekdays of the range, in order. So it has at most 10 slots, each starts
  at one of these hours on a weekday of the range, and an unavailable service returns this
  list whatever else its state is.
\<close>

theorem mock_availability_fixed_slots:
  assumes p1: "fromisoformat lib start_date = Inr start_dt"
    and p2: "fromisoformat lib end_date = Inr end_dt"
    and mock: "get_mock_availability lib start_date end_date m = Inr slots"
  shows "slots = spec_mock_slots m (date_of start_dt) (date_of end_dt)
     \<and> length slots \<le> 10
     \<and> (\<forall>sl \<in> set slots. \<exists>d h.
           date_of start_dt \<le> d \<and> d \<le> date_of end_dt \<and> weekday d < 5
           \<and> h \<in> {9, 11, 14, 16}
           \<and> slot_start_time sl = combine d h
           \<and> slot_end_time sl = combine d h + m * us_per_minute
           \<and> slot_available sl)
     \<and> (\<forall>self. \<not> is_available self
           \<longrightarrow> get_availability lib self start_date end_date m = Inr slots)"
proof (intro conjI ballI allI impI)
  from mock obtain all_slots where
    l: "mock_loop (date_of start_dt) (date_of end_dt) m [] = Inr all_slots"
    and t: "slots = take 10 all_slots"
    by (auto simp: get_mock_availability_def p1 p2 split: sum.splits)
  show eq: "slots = spec_mock_slots m (date_of start_dt) (date_of end_dt)"
    using mock_loop_Inr [OF l] t by (simp add: spec_mock_slots_def take_map)
  show "length slots \<le> 10" using t by simp
  show "\<exists>d h. date_of start_dt \<le> d \<and> d \<le> date_of end_dt \<and> weekday d < 5
           \<and> h \<in> {9, 11, 14, 16}
           \<and> slot_start_time sl = combine d h
           \<and> slot_end_time sl = combine d h + m * us_per_minute
           \<and> slot_available sl"
    if "sl \<in> set slots" for sl
  proof -
    from that have "sl \<in> set (map (spec_slot m)
                      (spec_candidates [9, 11, 14, 16] (date_of start_dt) (date_of end_dt)))"
      unfolding eq spec_mock_slots_def by (rule in_set_takeD)
    then obtain c where c: "c \<in> set (spec_candidates [9, 11, 14, 16] (date_of start_dt) (date_of end_dt))"
      and sl: "sl = spec_slot m c" by auto
    from c obtain d h where "date_of start_dt \<le> d" "d \<le> date_of end_dt" "weekday d < 5"
      "h \<in> set [9, 11, 14, 16]" "c = combine d h"
      unfolding spec_candidates_mem by blast
    then show ?thesis
      unfolding sl by (intro exI [of _ d] exI [of _ h]) (simp add: spec_slot_def)
  qed
  show "get_availability lib self start_date end_date m = Inr slots"
    if "\<not> is_available self" for self
    using that mock by (simp add: get_availability_def check_availability_def)
qed

theorem mock_availability_fixed_slots_witness:
  "fromisoformat example_lib (ascii ''2024-06-03'') = Inr (ymd2ord 2024 6 3 * us_per_day)
   \<and> fromisoformat example_lib (ascii ''2024-06-30'') = Inr (ymd2ord 2024 6 30 * us_per_day)
   \<and> get_mock_availability example_lib (ascii ''2024-06-03'') (ascii ''2024-06-30'') 60
      = Inr (map (spec_slot 60)
               [combine (ymd2ord 2024 6 3) 9, combine (ymd2ord 2024 6 3) 11,
                combine (ymd2ord 2024 6 3) 14, combine (ymd2ord 2024 6 3) 16,
                combine (ymd2ord 2024 6 4) 9, combine (ymd2ord 2024 6 4) 11,
                combine (ymd2ord 2024 6 4) 14, combine (ymd2ord 2024 6 4) 16,
                combine (ymd2ord 2024 6 5) 9, combine (ymd2ord 2024 6 5) 11])
   \<and> \<not> is_available demo_service
   \<and> get_availability example_lib demo_service (ascii ''2024-06-03'') (ascii ''2024-06-30'') 60
      = Inr (map (spec_slot 60)
               [combine (ymd2ord 2024 6 3) 9, combine (ymd2ord 2024 6 3) 11,
                combine (ymd2ord 2024 6 3) 14, combine (ymd2ord 2024 6 3) 16,
                combine (ymd2ord 2024 6 4) 9, combine (ymd2ord 2024 6 4) 11,
                combine (ymd2ord 2024 6 4) 14, combine (ymd2ord 2024 6 4) 16,
                combine (ymd2ord 2024 6 5) 9, combine (ymd2ord 2024 6 5) 11])"
proof -
  have p1: "fromisoformat example_lib (ascii ''2024-06-03'') = Inr (ymd2ord 2024 6 3 * us_per_day)"
    by code_simp
  have p2: "fromisoformat example_lib (ascii ''2024-06-30'') = Inr (ymd2ord 2024 6 30 * us_per_day)"
    by code_simp
  have mock: "get_mock_availability example_lib (ascii ''2024-06-03'') (ascii ''2024-06-30'') 60
      = Inr (map (spec_slot 60)
               [combine (ymd2ord 2024 6 3) 9, combine (ymd2ord 2024 6 3) 11,
                combine (ymd2ord 2024 6 3) 14, combine (ymd2ord 2024 6 3) 16,
                combine (ymd2ord 2024 6 4) 9, combine (ymd2ord 2024 6 4) 11,
                combine (ymd2ord 2024 6 4) 14, combine (ymd2ord 2024 6 4) 16,
                combine (ymd2ord 2024 6 5) 9, combine (ymd2ord 2024 6 5) 11])"
    by code_simp
  have u: "\<not> is_available demo_service" by (simp add: demo_service_def)
  show ?thesis
    using p1 p2 mock u mock_availability_fixed_slots [OF p1 p2 mock] by blast
qed

text \<open>
  Claim C4. The claim says that no turn is appended when the answer of the executor has
  no final answer. The code appends the user message before it looks for \<open>output\<close>:
  with an answer that has no \<open>output\<close>, the transcript of the session grows by one turn
  while the caller receives the text about the unexpected format.
\<close>

theorem process_message_missing_output_counterexample:
  "silent_agent (agent_request example_lib Map.empty (ascii ''hi'') (Some (ascii ''s1'')))
     = Inr Map.empty
   \<and> transcript Map.empty (ascii ''s1'') = []
   \<and> transcript
        (snd (process_message example_lib silent_agent Map.empty (ascii ''hi'')
                (Some (ascii ''s1''))))
        (ascii ''s1'')
      = [HumanMessage (ascii ''hi'')]
   \<and> fst (process_message example_lib silent_agent Map.empty (ascii ''hi'')
             (Some (ascii ''s1'')))
      = [9888, 65039] @ ascii '' Unexpected response format from LLM agent.''"
  by (simp add: process_message_def silent_agent_def transcript_def effective_session_id_def
      ascii_def Let_def)

text \<open>
  Claim C4, as the code has it: what \<open>process_message\<close> appends to the transcript of
  its session depends only on how the call of the executor ends. An answer with an
  \<open>output\<close> appends the user message and then that output, which is returned; an answer
  without \<open>output\<close> appends the user message alone; an exception appends nothing and
  the error text is returned without being stored. The transcripts of the other sessions
  do not change.
\<close>

theorem process_message_transcript:
  "(\<forall>response output.
      agent (agent_request lib sessions message session_id) = Inr response
      \<and> response (ascii ''output'') = Some output
      \<longrightarrow> fst (process_message lib agent sessions message session_id) = output
          \<and> transcript (snd (process_message lib agent sessions message session_id))
               (effective_session_id lib session_id)
             = transcript sessions (effective_session_id lib session_id)
               @ [HumanMessage message, AIMessage output])
   \<and> (\<forall>response.
      agent (agent_request lib sessions message session_id) = Inr response
      \<and> response (ascii ''output'') = None
      \<longrightarrow> fst (process_message lib agent sessions message session_id)
            = [9888, 65039] @ ascii '' Unexpected response format from LLM agent.''
          \<and> transcript (snd (process_message lib agent sessions message session_id))
               (effective_session_id lib session_id)
             = transcript sessions (effective_session_id lib session_id)
               @ [HumanMessage message])
   \<and> (\<forall>e.
      agent (agent_request lib sessions message session_id) = Inl e
      \<longrightarrow> fst (process_message lib agent sessions message session_id) = error_message lib e
          \<and> transcript (snd (process_message lib agent sessions message session_id))
               (effective_session_id lib session_id)
             = transcript sessions (effective_session_id lib session_id))
   \<and> (\<forall>other. other \<noteq> effective_session_id lib session_id
      \<longrightarrow> transcript (snd (process_message lib agent sessions message session_id)) other
            = transcript sessions other)"
proof -
  let ?sid = "effective_session_id lib session_id"
  let ?s1 = "if ?sid \<notin> dom sessions then sessions(?sid \<mapsto> []) else sessions"
  have req: "agent_request lib ?s1 message session_id
               = agent_request lib sessions message session_id"
    by (rule agent_request_new_session)
  have tr: "transcript ?s1 other = transcript sessions other" for other
    by (rule transcript_new_session)
  have upd: "transcript (s(k \<mapsto> v)) k = v" for s :: sessions and k v
    by (simp add: transcript_def)
  have oth: "other \<noteq> k \<Longrightarrow> transcript (s(k \<mapsto> v)) other = transcript s other"
    for s :: sessions and k v other
    by (simp add: transcript_def)
  show ?thesis
    unfolding process_message_def Let_def req
    by (auto simp: tr upd oth split: sum.splits option.splits)
qed

theorem process_message_transcript_witness:
  "answering_agent (agent_request example_lib example_sessions (ascii ''hi'') (Some (ascii ''s1'')))
     = Inr [ascii ''output'' \<mapsto> ascii ''Booked.'']
   \<and> transcript
        (snd (process_message example_lib answering_agent example_sessions (ascii ''hi'')
                (Some (ascii ''s1''))))
        (effective_session_id example_lib (Some (ascii ''s1'')))
      = transcript example_sessions (effective_session_id example_lib (Some (ascii ''s1'')))
        @ [HumanMessage (ascii ''hi''), AIMessage (ascii ''Booked.'')]
   \<and> silent_agent (agent_request example_lib example_sessions (ascii ''hi'') (Some (ascii ''s1'')))
     = Inr Map.empty
   \<and> transcript
        (snd (process_message example_lib silent_agent example_sessions (ascii ''hi'')
                (Some (ascii ''s1''))))
        (effective_session_id example_lib (Some (ascii ''s1'')))
      = transcript example_sessions (effective_session_id example_lib (Some (ascii ''s1'')))
        @ [HumanMessage (ascii ''hi'')]
   \<and> raising_agent (agent_request example_lib example_sessions (ascii ''hi'') (Some (ascii ''s1'')))
     = Inl (OtherException (ascii ''rate limit reached''))
   \<and> transcript
        (snd (process_message example_lib raising_agent example_sessions (ascii ''hi'')
                (Some (ascii ''s1''))))
        (effective_session_id example_lib (Some (ascii ''s1'')))
      = transcript example_sessions (effective_session_id example_lib (Some (ascii ''s1'')))"
proof -
  let ?req = "agent_request example_lib example_sessions (ascii ''hi'') (Some (ascii ''s1''))"
  have a: "answering_agent ?req = Inr [ascii ''output'' \<mapsto> ascii ''Booked.'']"
    by (simp add: answering_agent_def)
  have a': "[ascii ''output'' \<mapsto> ascii ''Booked.''] (ascii ''output'') = Some (ascii ''Booked.'')"
    by simp
  have s: "silent_agent ?req = Inr Map.empty"
    by (simp add: silent_agent_def)
  have s': "(Map.empty :: str \<rightharpoonup> str) (ascii ''output'') = None"
    by simp
  have r: "raising_agent ?req = Inl (OtherException (ascii ''rate limit reached''))"
    by (simp add: raising_agent_def)
  have t1: "transcript
        (snd (process_message example_lib answering_agent example_sessions (ascii ''hi'')
                (Some (ascii ''s1''))))
        (effective_session_id example_lib (Some (ascii ''s1'')))
      = transcript example_sessions (effective_session_id example_lib (Some (ascii ''s1'')))
        @ [HumanMessage (ascii ''hi''), AIMessage (ascii ''Booked.'')]"
    using process_message_transcript [of answering_agent example_lib example_sessions
        "ascii ''hi''" "Some (ascii ''s1'')"] a a'
    by blast
  have t2: "transcript
        (snd (process_message example_lib silent_agent example_sessions (ascii ''hi'')
                (Some (ascii ''s1''))))
        (effective_session_id example_lib (Some (ascii ''s1'')))
      = transcript example_sessions (effective_session_id example_lib (Some (ascii ''s1'')))
        @ [HumanMessage (ascii ''hi'')]"
    using process_message_transcript [of silent_agent example_lib example_sessions
        "ascii ''hi''" "Some (ascii ''s1'')"] s s'
    by blast
  have t3: "transcript
        (snd (process_message example_lib raising_agent example_sessions (ascii ''hi'')
                (Some (ascii ''s1''))))
        (effective_session_id example_lib (Some (ascii ''s1'')))
      = transcript example_sessions (effective_session_id example_lib (Some (ascii ''s1'')))"
    using process_message_transcript [of raising_agent example_lib example_sessions
        "ascii ''hi''" "Some (ascii ''s1'')"] r
    by blast
  show ?thesis
    using a t1 s t2 r t3 by (intro conjI)
qed

text \<open>
  Claim C9. A request to \<open>POST /chat\<close> without \<open>session_id\<close>: the conversation is stored
  under the generated identifier, but the reply carries the \<open>session_id\<close> of the request,
  which is \<open>None\<close>, and not the generated one.
\<close>

theorem chat_endpoint_omitted_session_id:
  "reply_session_id
     (fst (chat_endpoint example_lib answering_agent Map.empty
             \<lparr>cm_message = ascii ''hi'', cm_session_id = None, cm_context = None\<rparr>))
     = None
   \<and> reply_response
     (fst (chat_endpoint example_lib answering_agent Map.empty
             \<lparr>cm_message = ascii ''hi'', cm_session_id = None, cm_context = None\<rparr>))
     = ascii ''Booked.''
   \<and> dom (snd (chat_endpoint example_lib answering_agent Map.empty
             \<lparr>cm_message = ascii ''hi'', cm_session_id = None, cm_context = None\<rparr>))
     = {ascii ''session_1717400000.0''}"
  by (simp add: chat_endpoint_def process_message_def answering_agent_def transcript_def
      effective_session_id_def example_lib_def Let_def case_prod_unfold ascii_def)


text \<open>
  Claim C3. Each of the three tools returns a string for every input and every behaviour
  of the library and of the provider, never an exception. \<open>book_appointment\<close> answers an
  input of fewer than four fields between \<open>|\<close>, such as \<open>OnlyTitle\<close>, with the text that
  starts with \<open>Invalid booking format\<close>; an exception raised inside a tool becomes the
  text that starts with the error prefix of that tool, followed by the message of the
  exception.
\<close>

theorem tools_never_raise:
  "(\<exists>text. check_availability_tool lib self x = Inr text)
   \<and> (\<exists>text. book_appointment_tool lib self x = Inr text)
   \<and> (\<exists>text. get_existing_events_tool lib self x = Inr text)
   \<and> (length (split x [124]) < 4
        \<longrightarrow> book_appointment_tool lib self x
            = Inr (ascii ''Invalid booking format''
                   @ ascii ''. Please provide: title|description|start_time|end_time|email''))
   \<and> length (split (ascii ''OnlyTitle'') [124]) < 4
   \<and> (\<forall>e. check_availability_body lib self x = Inl e
        \<longrightarrow> check_availability_tool lib self x
            = Inr (ascii ''Error checking availability: '' @ str_e lib e))
   \<and> (\<forall>e. book_appointment_body lib self x = Inl e
        \<longrightarrow> book_appointment_tool lib self x
            = Inr (ascii ''Error booking appointment: '' @ str_e lib e))
   \<and> (\<forall>e. get_existing_events_body lib self x = Inl e
        \<longrightarrow> get_existing_events_tool lib self x
            = Inr (ascii ''Error getting events: '' @ str_e lib e))"
proof (intro conjI allI impI)
  show "\<exists>text. check_availability_tool lib self x = Inr text"
    by (simp add: check_availability_tool_def split: sum.split)
  show "\<exists>text. book_appointment_tool lib self x = Inr text"
    by (simp add: book_appointment_tool_def split: sum.split)
  show "\<exists>text. get_existing_events_tool lib self x = Inr text"
    by (simp add: get_existing_events_tool_def split: sum.split)
  show "book_appointment_tool lib self x
            = Inr (ascii ''Invalid booking format''
                   @ ascii ''. Please provide: title|description|start_time|end_time|email'')"
    if "length (split x [124]) < 4"
    using that
    by (simp add: book_appointment_tool_def book_appointment_body_def Let_def ascii_def)
  show "length (split (ascii ''OnlyTitle'') [124]) < 4"
    by code_simp
  show "check_availability_tool lib self x
            = Inr (ascii ''Error checking availability: '' @ str_e lib e)"
    if "check_availability_body lib self x = Inl e" for e
    using that by (simp add: check_availability_tool_def)
  show "book_appointment_tool lib self x
            = Inr (ascii ''Error booking appointment: '' @ str_e lib e)"
    if "book_appointment_body lib self x = Inl e" for e
    using that by (simp add: book_appointment_tool_def)
  show "get_existing_events_tool lib self x
            = Inr (ascii ''Error getting events: '' @ str_e lib e)"
    if "get_existing_events_body lib self x = Inl e" for e
    using that by (simp add: get_existing_events_tool_def)
qed


theorem tools_never_raise_witness:
  "length (split (ascii ''OnlyTitle'') [124]) < 4
   \<and> book_appointment_tool example_lib demo_service (ascii ''OnlyTitle'')
      = Inr (ascii ''Invalid booking format''
             @ ascii ''. Please provide: title|description|start_time|end_time|email'')
   \<and> check_availability_body example_lib demo_service (ascii ''x to y'')
      = Inl (ValueError (ascii ''Invalid isoformat string: '' @ [39] @ ascii ''x'' @ [39]))
   \<and> check_availability_tool example_lib demo_service (ascii ''x to y'')
      = Inr (ascii ''Error checking availability: ''
             @ str_e example_lib
                 (ValueError (ascii ''Invalid isoformat string: '' @ [39] @ ascii ''x'' @ [39])))
   \<and> book_appointment_body example_lib demo_service (ascii ''a|b|zzz|yyy'')
      = Inl (ValueError (ascii ''Invalid isoformat string: '' @ [39] @ ascii ''zzzT00:00:00'' @ [39]))
   \<and> book_appointment_tool example_lib demo_service (ascii ''a|b|zzz|yyy'')
      = Inr (ascii ''Error booking appointment: ''
             @ str_e example_lib
                 (ValueError (ascii ''Invalid isoformat string: '' @ [39] @ ascii ''zzzT00:00:00'' @ [39])))
   \<and> get_existing_events_body example_lib (connected_service []) (ascii ''x to y'')
      = Inl (ValueError (ascii ''Invalid isoformat string: '' @ [39] @ ascii ''x'' @ [39]))
   \<and> get_existing_events_tool example_lib (connected_service []) (ascii ''x to y'')
      = Inr (ascii ''Error getting events: ''
             @ str_e example_lib
                 (ValueError (ascii ''Invalid isoformat string: '' @ [39] @ ascii ''x'' @ [39])))"
proof -
  have s: "length (split (ascii ''OnlyTitle'') [124]) < 4" by code_simp
  have c: "check_availability_body example_lib demo_service (ascii ''x to y'')
      = Inl (ValueError (ascii ''Invalid isoformat string: '' @ [39] @ ascii ''x'' @ [39]))"
    by code_simp
  have b: "book_appointment_body example_lib demo_service (ascii ''a|b|zzz|yyy'')
      = Inl (ValueError (ascii ''Invalid isoformat string: '' @ [39] @ ascii ''zzzT00:00:00'' @ [39]))"
    by code_simp
  have g: "get_existing_events_body example_lib (connected_service []) (ascii ''x to y'')
      = Inl (ValueError (ascii ''Invalid isoformat string: '' @ [39] @ ascii ''x'' @ [39]))"
    by code_simp
  have s': "book_appointment_tool example_lib demo_service (ascii ''OnlyTitle'')
      = Inr (ascii ''Invalid booking format''
             @ ascii ''. Please provide: title|description|start_time|end_time|email'')"
    using tools_never_raise [of example_lib demo_service "ascii ''OnlyTitle''"] s by blast
  have c': "check_availability_tool example_lib demo_service (ascii ''x to y'')
      = Inr (ascii ''Error checking availability: ''
             @ str_e example_lib
                 (ValueError (ascii ''Invalid isoformat string: '' @ [39] @ ascii ''x'' @ [39])))"
    using tools_never_raise [of example_lib demo_service "ascii ''x to y''"] c by blast
  have b': "book_appointment_tool example_lib demo_service (ascii ''a|b|zzz|yyy'')
      = Inr (ascii ''Error booking appointment: ''
             @ str_e example_lib
                 (ValueError (ascii ''Invalid isoformat string: '' @ [39] @ ascii ''zzzT00:00:00'' @ [39])))"
    using tools_never_raise [of example_lib demo_service "ascii ''a|b|zzz|yyy''"] b by blast
  have g': "get_existing_events_tool example_lib (connected_service []) (ascii ''x to y'')
      = Inr (ascii ''Error getting events: ''
             @ str_e example_lib
                 (ValueError (ascii ''Invalid isoformat string: '' @ [39] @ ascii ''x'' @ [39])))"
    using tools_never_raise [of example_lib "connected_service []" "ascii ''x to y''"] g by blast
  show ?thesis
    using s s' c c' b b' g g' by (intro conjI)
qed

end
